theory Spec2Isabelle
  imports Main "HOL-Library.AList"
begin

section \<open>Errors\<close>

text \<open>
  The arguments of one \<open>fmt.Errorf\<close> call, in the order of the format string: literal
  text, a \<open>%s\<close> argument and a \<open>%q\<close> argument. The \<open>%w\<close> argument, which is the last verb
  of every format string of commands_schedule.go, is the second component of \<open>Errorf\<close>.
\<close>

datatype fmtarg = Lit string | ArgS string | ArgQ string

text \<open>The apostrophe, as a string of one character.\<close>

abbreviation apos :: string where
  "apos \<equiv> [CHR 0x27]"

text \<open>
  \<open>ErrNotFound\<close> is the sentinel \<open>config.ErrNotFound\<close>; \<open>ErrorsNew\<close> is \<open>errors.New\<close> and
  also stands for any error of a collaborator that wraps nothing; \<open>Errorf args w\<close> is
  \<open>fmt.Errorf\<close>, where \<open>w\<close> is the error given to \<open>%w\<close> (\<open>None\<close> when the format has no
  \<open>%w\<close>, or when its argument is nil). \<open>PanicNilDereference\<close> is the run-time panic of a
  method call through a nil pointer.
\<close>

datatype error =
    ErrNotFound
  | ErrorsNew string
  | Errorf "fmtarg list" "error option"
  | PanicNilDereference

text \<open>\<open>errors.Is\<close>: the error itself, or an error on its \<open>Unwrap\<close> chain, is the target.\<close>

fun errors_Is :: "error \<Rightarrow> error \<Rightarrow> bool" where
  "errors_Is (Errorf args (Some e)) target =
     (Errorf args (Some e) = target \<or> errors_Is e target)"
| "errors_Is e target = (e = target)"

text \<open>
  The text of an error (its \<open>Error()\<close> method). Two texts are not fixed by
  commands_schedule.go and are parameters: \<open>quote\<close>, the rendering of \<open>%q\<close>
  (\<open>strconv.Quote\<close>), and \<open>notFoundText\<close>, the text of \<open>config.ErrNotFound\<close>.
\<close>

record rendering =
  quote :: "string \<Rightarrow> string"
  notFoundText :: string

fun render :: "rendering \<Rightarrow> fmtarg \<Rightarrow> string" where
  "render r (Lit s) = s"
| "render r (ArgS s) = s"
| "render r (ArgQ s) = quote r s"

fun Error :: "rendering \<Rightarrow> error \<Rightarrow> string" where
  "Error r ErrNotFound = notFoundText r"
| "Error r (ErrorsNew s) = s"
| "Error r (Errorf args None) = concat (map (render r) args)"
| "Error r (Errorf args (Some e)) = concat (map (render r) args) @ Error r e"
| "Error r PanicNilDereference = ''runtime error: invalid memory address or nil pointer dereference''"

section \<open>Data model\<close>

text \<open>The identity of a schedule: the name of its owner and its command.\<close>

record Origin =
  Name :: string
  Command :: string

definition ScheduleOrigin :: "string \<Rightarrow> string \<Rightarrow> Origin" where
  "ScheduleOrigin name command = \<lparr>Name = name, Command = command\<rparr>"

text \<open>The tri-state boolean of \<open>IgnoreOnBattery\<close>.\<close>

datatype MaybeBool = Unset | MaybeTrue | MaybeFalse

definition IsTrue :: "MaybeBool \<Rightarrow> bool" where
  "IsTrue b = (b = MaybeTrue)"

definition IsStrictlyFalse :: "MaybeBool \<Rightarrow> bool" where
  "IsStrictlyFalse b = (b = MaybeFalse)"

text \<open>
  The lock modes. prepareScheduledProfile tests for \<open>ScheduleLockModeDefault\<close> and
  \<open>ScheduleLockModeIgnore\<close> and does nothing for any other mode.
\<close>

datatype ScheduleLockMode =
  ScheduleLockModeDefault | ScheduleLockModeFail | ScheduleLockModeIgnore

text \<open>
  One job definition. \<open>Flags\<close> is the map of job options, kept as an association list;
  \<open>GetLockMode\<close> and \<open>GetLockWait\<close> are what the methods of these names return (a
  duration is an integer number of nanoseconds).
\<close>

record Schedule =
  origin :: Origin
  Flags :: "(string \<times> string) list"
  Log :: string
  CommandOutput :: string
  IgnoreOnBatteryLessThan :: int
  IgnoreOnBattery :: MaybeBool
  GetLockMode :: ScheduleLockMode
  GetLockWait :: int

definition SetFlag :: "string \<Rightarrow> string \<Rightarrow> Schedule \<Rightarrow> Schedule" where
  "SetFlag name v s = s\<lparr>Flags := AList.update name v (Flags s)\<rparr>"

text \<open>
  A profile or a group. \<open>schedules\<close> is the map returned by \<open>Schedules()\<close>, from command
  name to schedule, as the list of its entries in the order in which the map is
  iterated; \<open>schedulableCommands\<close> is what \<open>SchedulableCommands()\<close> returns.
\<close>

record SchedulableData =
  schedules :: "(string \<times> Schedule) list"
  schedulableCommands :: "string list"

type_synonym Profile = SchedulableData
type_synonym Group = SchedulableData

datatype Schedulable = IsProfile Profile | IsGroup Group

fun Kind :: "Schedulable \<Rightarrow> string" where
  "Kind (IsProfile p) = ''profile''"
| "Kind (IsGroup g) = ''group''"

text \<open>
  \<open>cases.Title(language.English).String\<close> on one word of ASCII letters, which the two
  kinds are: the first letter in upper case, the others in lower case.
\<close>

definition toUpperASCII :: "char \<Rightarrow> char" where
  "toUpperASCII c =
     (case map_of (zip ''abcdefghijklmnopqrstuvwxyz'' ''ABCDEFGHIJKLMNOPQRSTUVWXYZ'') c of
        Some u \<Rightarrow> u | None \<Rightarrow> c)"

definition toLowerASCII :: "char \<Rightarrow> char" where
  "toLowerASCII c =
     (case map_of (zip ''ABCDEFGHIJKLMNOPQRSTUVWXYZ'' ''abcdefghijklmnopqrstuvwxyz'') c of
        Some l \<Rightarrow> l | None \<Rightarrow> c)"

fun Title :: "string \<Rightarrow> string" where
  "Title [] = []"
| "Title (c # cs) = toUpperASCII c # map toLowerASCII cs"

fun Schedules :: "Schedulable \<Rightarrow> (string \<times> Schedule) list" where
  "Schedules (IsProfile p) = schedules p"
| "Schedules (IsGroup g) = schedules g"

fun SchedulableCommands :: "Schedulable \<Rightarrow> string list" where
  "SchedulableCommands (IsProfile p) = schedulableCommands p"
| "SchedulableCommands (IsGroup g) = schedulableCommands g"

text \<open>
  What a loader returns as its pair (pointer, error): a value, an error, or the nil
  pointer with no error.
\<close>

datatype 'a loaded = Loaded 'a | LoadFailed error | LoadedNil

text \<open>
  The global section, the scheduler configuration built from it, the handler built
  from that, and the command-line flags are opaque to commands_schedule.go, which only
  hands them on. A global section and a set of flags are identified by a number.
\<close>

datatype Global = GlobalSection nat
datatype SchedulerConfig = NewSchedulerConfig Global
datatype Handler = NewHandler SchedulerConfig
datatype commandLineFlags = CommandLineFlags nat

text \<open>
  The configuration, as the answers of the methods that commands_schedule.go calls.
  \<open>scheduleDefaults\<close> holds the fields that \<open>config.NewDefaultSchedule\<close> gives to a new
  schedule of this configuration.
\<close>

record Config =
  GetGlobalSection :: "error + Global"
  GetProfileNames :: "string list"
  GetGroupNames :: "string list"
  HasProfile :: "string \<Rightarrow> bool"
  GetProfile :: "string \<Rightarrow> Profile loaded"
  HasProfileGroup :: "string \<Rightarrow> bool"
  GetProfileGroup :: "string \<Rightarrow> Group loaded"
  GetConfigFile :: string
  scheduleDefaults :: Schedule

text \<open>
  Modelled from the spec: \<open>config.NewDefaultSchedule\<close> is not part of
  commands_schedule.go. It returns a schedule with the given origin whose other fields
  are the defaults of the configuration.
\<close>

definition NewDefaultSchedule :: "Config \<Rightarrow> Origin \<Rightarrow> Schedule" where
  "NewDefaultSchedule c orig = (scheduleDefaults c)\<lparr>origin := orig\<rparr>"

section \<open>Effects\<close>

text \<open>
  What a command does besides returning: the lines it logs, the notices it displays and
  its calls to the scheduler handler and to the elevation retry, in the order in which
  they happen. The log lines \<open>LogInfo kind name\<close> and \<open>LogDebug kind name\<close> keep the
  arguments of their format strings.
\<close>

datatype event =
    LogWarning string
  | LogError error
  | LogInfo string string
  | LogDebug string string
  | DeprecationNotices Profile
  | ConfigurationIssues
  | CallScheduleJobs Handler "Schedule list"
  | CallRemoveJobs Handler "Schedule list"
  | CallStatusJobs Handler string "Schedule list"
  | CallRemoveScheduledJobs Handler string string
  | CallStatusScheduledJobs Handler string string
  | CallRetryElevated error commandLineFlags

text \<open>
  The collaborators that are not part of commands_schedule.go: the five operations on a
  scheduler handler and the elevation retry. Each one answers with an error or with
  none (nil), as a function of its arguments and of everything that happened before
  the call.
\<close>

record Env =
  scheduleJobs_result :: "event list \<Rightarrow> Handler \<Rightarrow> Schedule list \<Rightarrow> error option"
  removeJobs_result :: "event list \<Rightarrow> Handler \<Rightarrow> Schedule list \<Rightarrow> error option"
  statusJobs_result :: "event list \<Rightarrow> Handler \<Rightarrow> string \<Rightarrow> Schedule list \<Rightarrow> error option"
  removeScheduledJobs_result :: "event list \<Rightarrow> Handler \<Rightarrow> string \<Rightarrow> string \<Rightarrow> error option"
  statusScheduledJobs_result :: "event list \<Rightarrow> Handler \<Rightarrow> string \<Rightarrow> string \<Rightarrow> error option"
  retryElevated_result :: "event list \<Rightarrow> error \<Rightarrow> commandLineFlags \<Rightarrow> error option"

text \<open>A call records itself and returns the answer of the collaborator.\<close>

definition scheduleJobs ::
  "Env \<Rightarrow> Handler \<Rightarrow> Schedule list \<Rightarrow> event list \<Rightarrow> error option \<times> event list" where
  "scheduleJobs env h js t = (scheduleJobs_result env t h js, t @ [CallScheduleJobs h js])"

definition removeJobs ::
  "Env \<Rightarrow> Handler \<Rightarrow> Schedule list \<Rightarrow> event list \<Rightarrow> error option \<times> event list" where
  "removeJobs env h js t = (removeJobs_result env t h js, t @ [CallRemoveJobs h js])"

definition statusJobs ::
  "Env \<Rightarrow> Handler \<Rightarrow> string \<Rightarrow> Schedule list \<Rightarrow> event list \<Rightarrow> error option \<times> event list" where
  "statusJobs env h profileName js t =
     (statusJobs_result env t h profileName js, t @ [CallStatusJobs h profileName js])"

definition removeScheduledJobs ::
  "Env \<Rightarrow> Handler \<Rightarrow> string \<Rightarrow> string \<Rightarrow> event list \<Rightarrow> error option \<times> event list" where
  "removeScheduledJobs env h configFile profileName t =
     (removeScheduledJobs_result env t h configFile profileName,
      t @ [CallRemoveScheduledJobs h configFile profileName])"

definition statusScheduledJobs ::
  "Env \<Rightarrow> Handler \<Rightarrow> string \<Rightarrow> string \<Rightarrow> event list \<Rightarrow> error option \<times> event list" where
  "statusScheduledJobs env h configFile profileName t =
     (statusScheduledJobs_result env t h configFile profileName,
      t @ [CallStatusScheduledJobs h configFile profileName])"

definition retryElevated ::
  "Env \<Rightarrow> error \<Rightarrow> commandLineFlags \<Rightarrow> event list \<Rightarrow> error option \<times> event list" where
  "retryElevated env err fl t = (retryElevated_result env t err fl, t @ [CallRetryElevated err fl])"

section \<open>Job set builder\<close>

text \<open>
  The functions of this section read the configuration only. Their one effect, the
  deprecation notices of a resolved profile, is returned as the list of the events
  that the call adds.
\<close>

definition getProfileScheduleJobs :: "Config \<Rightarrow> string \<Rightarrow> error + (Profile \<times> Schedule list)" where
  "getProfileScheduleJobs c profileName =
     (case GetProfile c profileName of
        LoadFailed err \<Rightarrow>
          if errors_Is err ErrNotFound
          then Inl (Errorf [Lit ''profile '', Lit apos, ArgS profileName, Lit apos, Lit '': '']
                      (Some err))
          else Inl (Errorf [Lit ''cannot load profile '', Lit apos, ArgS profileName, Lit apos, Lit '': '']
                      (Some err))
      | LoadedNil \<Rightarrow> Inl PanicNilDereference
      | Loaded profile \<Rightarrow> Inr (profile, map snd (schedules profile)))"

definition getGroupScheduleJobs :: "Config \<Rightarrow> string \<Rightarrow> error + (Group \<times> Schedule list)" where
  "getGroupScheduleJobs c profileName =
     (case GetProfileGroup c profileName of
        LoadFailed err \<Rightarrow>
          if errors_Is err ErrNotFound
          then Inl (Errorf [Lit ''group '', Lit apos, ArgS profileName, Lit apos, Lit '' not found'']
                      None)
          else Inl (Errorf [Lit ''cannot load group '', Lit apos, ArgS profileName, Lit apos, Lit '': '']
                      (Some err))
      | LoadedNil \<Rightarrow> Inl PanicNilDereference
      | Loaded grp \<Rightarrow> Inr (grp, map snd (schedules grp)))"

definition getScheduleJobs ::
  "Config \<Rightarrow> string \<Rightarrow> (error + (SchedulerConfig \<times> Schedule list \<times> Schedulable)) \<times> event list" where
  "getScheduleJobs c profileName =
     (case GetGlobalSection c of
        Inl err \<Rightarrow> (Inl (Errorf [Lit ''cannot load global section: ''] (Some err)), [])
      | Inr global \<Rightarrow>
          if HasProfile c profileName then
            (case getProfileScheduleJobs c profileName of
               Inl err \<Rightarrow> (Inl err, [])
             | Inr (profile, scheds) \<Rightarrow>
                 (Inr (NewSchedulerConfig global, scheds, IsProfile profile),
                  [DeprecationNotices profile]))
          else if HasProfileGroup c profileName then
            (case getGroupScheduleJobs c profileName of
               Inl err \<Rightarrow> (Inl err, [])
             | Inr (grp, scheds) \<Rightarrow>
                 (Inr (NewSchedulerConfig global, scheds, IsGroup grp), []))
          else
            (Inl (Errorf [Lit ''profile or group '', Lit apos, ArgS profileName, Lit apos, Lit '': '']
                    (Some ErrNotFound)), []))"

definition requireScheduleJobs :: "Schedule list \<Rightarrow> string \<Rightarrow> error option" where
  "requireScheduleJobs scheds profileName =
     (if length scheds = 0
      then Some (Errorf [Lit ''no schedule found for profile '', Lit apos, ArgS profileName, Lit apos]
                   None)
      else None)"

text \<open>
  The inner loop of getRemovableScheduleJobs: whether one of the schedules collected so
  far has the command as the command of its origin.
\<close>

fun declared :: "Schedule list \<Rightarrow> string \<Rightarrow> bool" where
  "declared [] command = False"
| "declared (s # ss) command =
     (if Command (origin s) = command then True else declared ss command)"

text \<open>
  The outer loop of getRemovableScheduleJobs, over the schedulable commands: a
  placeholder is appended to the schedules, and the next commands are compared with
  the extended list.
\<close>

fun addUndeclared :: "Config \<Rightarrow> string \<Rightarrow> string list \<Rightarrow> Schedule list \<Rightarrow> Schedule list" where
  "addUndeclared c profileName [] scheds = scheds"
| "addUndeclared c profileName (command # commands) scheds =
     (if \<not> declared scheds command
      then addUndeclared c profileName commands
             (scheds @ [NewDefaultSchedule c (ScheduleOrigin profileName command)])
      else addUndeclared c profileName commands scheds)"

definition getRemovableScheduleJobs ::
  "Config \<Rightarrow> string \<Rightarrow> (error + (SchedulerConfig \<times> Schedule list)) \<times> event list" where
  "getRemovableScheduleJobs c profileName =
     (case getScheduleJobs c profileName of
        (Inl err, es) \<Rightarrow> (Inl err, es)
      | (Inr (scheduler, scheds, schedulable), es) \<Rightarrow>
          (Inr (scheduler,
                addUndeclared c profileName (SchedulableCommands schedulable) scheds), es))"

section \<open>Selector\<close>

definition selectProfilesAndGroups :: "Config \<Rightarrow> string \<Rightarrow> string list \<Rightarrow> string list" where
  "selectProfilesAndGroups c profileName args =
     (let schedulables =
            (if ''--all'' \<in> set args then GetProfileNames c @ GetGroupNames c else [])
      in if length schedulables = 0 then schedulables @ [profileName] else schedulables)"

section \<open>Reconciler\<close>

record Request =
  request_profile :: string
  request_schedule :: string
  request_arguments :: "string list"

text \<open>
  The context of a command: the fields of \<open>ctx\<close> that commands_schedule.go reads or
  writes. \<open>ctx_schedule\<close> is a pointer, \<open>None\<close> when nil.
\<close>

record Context =
  ctx_config :: Config
  ctx_global :: Global
  ctx_flags :: commandLineFlags
  ctx_request :: Request
  ctx_command :: string
  ctx_schedule :: "Schedule option"
  ctx_logTarget :: string
  ctx_commandOutput :: string
  ctx_stopOnBattery :: int
  ctx_lockWait :: int
  ctx_noLock :: bool

definition legacyFlagWarning :: string where
  "legacyFlagWarning =
     ''the --legacy flag is only temporary and will be removed in version 1.0.0''"

record profileJobs =
  pj_schedulerConfig :: SchedulerConfig
  pj_name :: string
  pj_jobs :: "Schedule list"

text \<open>
  Step 1 of createSchedule: the loop over the selected names, with the jobs collected
  so far. It returns the error of the first name that stops it, or all collected jobs.
\<close>

fun collectJobs ::
  "Config \<Rightarrow> string list \<Rightarrow> string list \<Rightarrow> profileJobs list \<Rightarrow> event list
     \<Rightarrow> (error + profileJobs list) \<times> event list" where
  "collectJobs c args [] allJobs t = (Inr allJobs, t)"
| "collectJobs c args (profileName # rest) allJobs t =
     (case getScheduleJobs c profileName of
        (Inl err, es) \<Rightarrow> (Inl err, t @ es)
      | (Inr (scheduler, js, schedulable), es) \<Rightarrow>
          (case requireScheduleJobs js profileName of
             Some err \<Rightarrow>
               if ''--all'' \<in> set args then collectJobs c args rest allJobs (t @ es)
               else (Inl err, t @ es)
           | None \<Rightarrow>
               (let js1 = (if ''--no-start'' \<in> set args
                           then map (SetFlag ''no-start'' []) js else js);
                    js2 = (if ''--reload'' \<in> set args
                           then map (SetFlag ''reload'' []) js1 else js1)
                in collectJobs c args rest
                     (allJobs @ [\<lparr>pj_schedulerConfig = scheduler, pj_name = profileName,
                                  pj_jobs = js2\<rparr>])
                     (t @ es))))"

text \<open>Step 2 of createSchedule: the loop over the collected jobs.\<close>

fun scheduleAll ::
  "Env \<Rightarrow> commandLineFlags \<Rightarrow> profileJobs list \<Rightarrow> event list \<Rightarrow> error option \<times> event list" where
  "scheduleAll env fl [] t = (None, t)"
| "scheduleAll env fl (j # js) t =
     (case scheduleJobs env (NewHandler (pj_schedulerConfig j)) (pj_jobs j) t of
        (Some err, t1) \<Rightarrow> retryElevated env err fl t1
      | (None, t1) \<Rightarrow> scheduleAll env fl js t1)"

text \<open>
  createSchedule. The deferred \<open>DisplayConfigurationIssues\<close> is the last event of every
  path.
\<close>

definition createSchedule :: "Env \<Rightarrow> Context \<Rightarrow> event list \<Rightarrow> error option \<times> event list" where
  "createSchedule env ctx t =
     (let c = ctx_config ctx; request = ctx_request ctx; args = request_arguments request
      in case collectJobs c args (selectProfilesAndGroups c (request_profile request) args) [] t of
           (Inl err, t1) \<Rightarrow> (Some err, t1 @ [ConfigurationIssues])
         | (Inr allJobs, t1) \<Rightarrow>
             (case scheduleAll env (ctx_flags ctx) allJobs t1 of
                (r, t2) \<Rightarrow> (r, t2 @ [ConfigurationIssues])))"

text \<open>
  The loop of the legacy protocol of removeSchedule. A name that does not resolve ends
  the command with its error; a removal that fails, also after the elevation retry, is
  logged.
\<close>

fun removeLegacy ::
  "Env \<Rightarrow> Config \<Rightarrow> commandLineFlags \<Rightarrow> string list \<Rightarrow> event list \<Rightarrow> error option \<times> event list" where
  "removeLegacy env c fl [] t = (None, t)"
| "removeLegacy env c fl (profileName # rest) t =
     (case getRemovableScheduleJobs c profileName of
        (Inl err, es) \<Rightarrow> (Some err, t @ es)
      | (Inr (schedulerConfig, js), es) \<Rightarrow>
          (case removeJobs env (NewHandler schedulerConfig) js (t @ es) of
             (None, t1) \<Rightarrow> removeLegacy env c fl rest t1
           | (Some err, t1) \<Rightarrow>
               (case retryElevated env err fl t1 of
                  (None, t2) \<Rightarrow> removeLegacy env c fl rest t2
                | (Some err2, t2) \<Rightarrow> removeLegacy env c fl rest (t2 @ [LogError err2]))))"

definition removeSchedule :: "Env \<Rightarrow> Context \<Rightarrow> event list \<Rightarrow> error option \<times> event list" where
  "removeSchedule env ctx t =
     (let c = ctx_config ctx; request = ctx_request ctx; args = request_arguments request
      in if ''--legacy'' \<in> set args then
           removeLegacy env c (ctx_flags ctx)
             (selectProfilesAndGroups c (request_profile request) args)
             (t @ [LogWarning legacyFlagWarning])
         else
           (let profileName = (if ''--all'' \<in> set args then [] else request_profile request);
                schedulerConfig = NewSchedulerConfig (ctx_global ctx)
            in case removeScheduledJobs env (NewHandler schedulerConfig) (GetConfigFile c)
                      profileName t of
                 (Some err, t1) \<Rightarrow> retryElevated env err (ctx_flags ctx) t1
               | (None, t1) \<Rightarrow> (None, t1)))"

definition statusScheduleProfileOrGroup ::
  "Env \<Rightarrow> SchedulerConfig \<Rightarrow> Schedule list \<Rightarrow> commandLineFlags \<Rightarrow> string \<Rightarrow> event list
     \<Rightarrow> error option \<times> event list" where
  "statusScheduleProfileOrGroup env schedulerConfig scheds fl profileName t =
     (case statusJobs env (NewHandler schedulerConfig) profileName scheds t of
        (Some err, t1) \<Rightarrow> retryElevated env err fl t1
      | (None, t1) \<Rightarrow> (None, t1))"

text \<open>
  The loop of statusSchedule over all profiles and groups (legacy protocol). \<open>Some err\<close>
  is the \<open>return err\<close> inside the loop; \<open>None\<close> means that the loop ran to its end.
\<close>

fun statusLegacyAll ::
  "Env \<Rightarrow> Config \<Rightarrow> commandLineFlags \<Rightarrow> string list \<Rightarrow> event list \<Rightarrow> error option \<times> event list" where
  "statusLegacyAll env c fl [] t = (None, t)"
| "statusLegacyAll env c fl (profileName # rest) t =
     (case getScheduleJobs c profileName of
        (Inl err, es) \<Rightarrow> (Some err, t @ es)
      | (Inr (scheduler, scheds, schedulable), es) \<Rightarrow>
          if length scheds = 0 then statusLegacyAll env c fl rest (t @ es)
          else
            (case statusScheduleProfileOrGroup env scheduler scheds fl profileName
                    (t @ es @ [LogInfo (Title (Kind schedulable)) profileName]) of
               (Some err, t1) \<Rightarrow> statusLegacyAll env c fl rest (t1 @ [LogError err])
             | (None, t1) \<Rightarrow> statusLegacyAll env c fl rest t1))"

text \<open>The end of statusSchedule, after the legacy block: the current protocol.\<close>

definition statusCurrent :: "Env \<Rightarrow> Context \<Rightarrow> event list \<Rightarrow> error option \<times> event list" where
  "statusCurrent env ctx t =
     (let args = request_arguments (ctx_request ctx);
          profileName = (if ''--all'' \<in> set args then [] else request_profile (ctx_request ctx));
          schedulerConfig = NewSchedulerConfig (ctx_global ctx)
      in case statusScheduledJobs env (NewHandler schedulerConfig)
                (GetConfigFile (ctx_config ctx)) profileName t of
           (Some err, t1) \<Rightarrow> retryElevated env err (ctx_flags ctx) t1
         | (None, t1) \<Rightarrow> (None, t1))"

text \<open>The body of statusSchedule, without the deferred call.\<close>

definition statusSchedule_body :: "Env \<Rightarrow> Context \<Rightarrow> event list \<Rightarrow> error option \<times> event list" where
  "statusSchedule_body env ctx t =
     (let c = ctx_config ctx; request = ctx_request ctx; args = request_arguments request
      in if ''--legacy'' \<in> set args then
           (let t0 = t @ [LogWarning legacyFlagWarning]
            in if ''--all'' \<notin> set args then
                 (case getScheduleJobs c (request_profile request) of
                    (Inl err, es) \<Rightarrow> (Some err, t0 @ es)
                  | (Inr (schedulerConfig, scheds, schedulable), es) \<Rightarrow>
                      if length scheds = 0 then
                        (None, t0 @ es @
                           [LogWarning (''profile or group '' @ request_profile request
                                          @ '' has no schedule'')])
                      else
                        (case statusScheduleProfileOrGroup env schedulerConfig scheds
                                (ctx_flags ctx) (request_profile request) (t0 @ es) of
                           (Some err, t1) \<Rightarrow> (Some err, t1)
                         | (None, t1) \<Rightarrow> (None, t1)))
               else
                 (case statusLegacyAll env c (ctx_flags ctx)
                         (selectProfilesAndGroups c (request_profile request) args) t0 of
                    (Some err, t1) \<Rightarrow> (Some err, t1)
                  | (None, t1) \<Rightarrow> statusCurrent env ctx t1))
         else statusCurrent env ctx t)"

definition statusSchedule :: "Env \<Rightarrow> Context \<Rightarrow> event list \<Rightarrow> error option \<times> event list" where
  "statusSchedule env ctx t =
     (case statusSchedule_body env ctx t of (r, t1) \<Rightarrow> (r, t1 @ [ConfigurationIssues]))"

section \<open>Context rehydrator\<close>

text \<open>
  \<open>strings.Cut\<close> for a separator of one byte: the text before and after the first
  occurrence of the separator, or \<open>None\<close> when it does not occur.
\<close>

fun Cut :: "string \<Rightarrow> char \<Rightarrow> (string \<times> string) option" where
  "Cut [] sep = None"
| "Cut (x # xs) sep =
     (if x = sep then Some ([], xs)
      else (case Cut xs sep of None \<Rightarrow> None | Some (before, after) \<Rightarrow> Some (x # before, after)))"

text \<open>\<open>s\<close> is \<open>ctx.schedule\<close>, which the caller has set and found to be there.\<close>

definition prepareScheduledProfile :: "Schedule \<Rightarrow> Context \<Rightarrow> Context" where
  "prepareScheduledProfile s ctx =
     (let ctx1 = (if length (Log s) > 0 then ctx\<lparr>ctx_logTarget := Log s\<rparr> else ctx);
          ctx2 = (if length (CommandOutput s) > 0
                  then ctx1\<lparr>ctx_commandOutput := CommandOutput s\<rparr> else ctx1);
          ctx3 = (if IgnoreOnBatteryLessThan s > 0 \<and> \<not> IsStrictlyFalse (IgnoreOnBattery s)
                  then ctx2\<lparr>ctx_stopOnBattery := IgnoreOnBatteryLessThan s\<rparr>
                  else if IsTrue (IgnoreOnBattery s) then ctx2\<lparr>ctx_stopOnBattery := 100\<rparr>
                  else ctx2)
      in if GetLockMode s = ScheduleLockModeDefault then
           (if GetLockWait s > 0 then ctx3\<lparr>ctx_lockWait := GetLockWait s\<rparr> else ctx3)
         else if GetLockMode s = ScheduleLockModeIgnore then ctx3\<lparr>ctx_noLock := True\<rparr>
         else ctx3)"

text \<open>
  The owner lookup of preRunSchedule: the profile of the name, else the group of the
  name, else not found. A loader that returns the nil pointer without an error gives
  an error that wraps nothing (\<open>%w\<close> of a nil error).
\<close>

definition loadOwner :: "Config \<Rightarrow> string \<Rightarrow> error + Schedulable" where
  "loadOwner c profileName =
     (if HasProfile c profileName then
        (case GetProfile c profileName of
           LoadFailed err \<Rightarrow>
             Inl (Errorf [Lit ''cannot load profile '', Lit apos, ArgS profileName, Lit apos, Lit '': '']
                    (Some err))
         | LoadedNil \<Rightarrow>
             Inl (Errorf [Lit ''cannot load profile '', Lit apos, ArgS profileName, Lit apos, Lit '': '',
                          Lit ''%!w(<nil>)''] None)
         | Loaded profile \<Rightarrow> Inr (IsProfile profile))
      else if HasProfileGroup c profileName then
        (case GetProfileGroup c profileName of
           LoadFailed err \<Rightarrow>
             Inl (Errorf [Lit ''cannot load group '', Lit apos, ArgS profileName, Lit apos, Lit '': '']
                    (Some err))
         | LoadedNil \<Rightarrow>
             Inl (Errorf [Lit ''cannot load group '', Lit apos, ArgS profileName, Lit apos, Lit '': '',
                          Lit ''%!w(<nil>)''] None)
         | Loaded grp \<Rightarrow> Inr (IsGroup grp))
      else Inl (Errorf [Lit ''profile or group '', ArgQ profileName, Lit '': '']
                  (Some ErrNotFound)))"

text \<open>
  preRunSchedule returns its error (or none), the context as it has left it, and the
  events it adds. The context is written before the owner is looked up, so it is
  changed also when the lookup fails.
\<close>

definition preRunSchedule :: "Context \<Rightarrow> error option \<times> Context \<times> event list" where
  "preRunSchedule ctx =
     (case request_arguments (ctx_request ctx) of
        [] \<Rightarrow> (Some (ErrorsNew ''run-schedule command expects one argument: schedule name''),
               ctx, [])
      | scheduleName # arguments \<Rightarrow>
          (case Cut scheduleName (CHR ''@'') of
             None \<Rightarrow>
               (Some (ErrorsNew
                  ''the expected format of the schedule name is <command>@<profile-or-group-name>''),
                ctx, [])
           | Some (commandName, profileName) \<Rightarrow>
               (let ctx1 = ctx\<lparr>ctx_request := (ctx_request ctx)
                                  \<lparr>request_profile := profileName,
                                   request_schedule := scheduleName,
                                   request_arguments := arguments\<rparr>,
                                ctx_command := commandName\<rparr>
                in case loadOwner (ctx_config ctx1) profileName of
                     Inl err \<Rightarrow> (Some err, ctx1, [])
                   | Inr schedulable \<Rightarrow>
                       (let ctx2 = ctx1\<lparr>ctx_schedule :=
                                          map_of (Schedules schedulable) (ctx_command ctx1)\<rparr>
                        in case ctx_schedule ctx2 of
                             Some s \<Rightarrow>
                               (None, prepareScheduledProfile s ctx2,
                                [LogDebug (Kind schedulable) (request_schedule (ctx_request ctx2))])
                           | None \<Rightarrow> (None, ctx2, [])))))"

section \<open>Example configurations\<close>

definition plainSchedule :: Schedule where
  "plainSchedule =
     \<lparr>origin = ScheduleOrigin [] [], Flags = [], Log = [], CommandOutput = [],
      IgnoreOnBatteryLessThan = 0, IgnoreOnBattery = Unset,
      GetLockMode = ScheduleLockModeDefault, GetLockWait = 0\<rparr>"

text \<open>A configuration that declares neither a profile nor a group.\<close>

definition emptyConfig :: Config where
  "emptyConfig =
     \<lparr>GetGlobalSection = Inr (GlobalSection 0),
      GetProfileNames = [], GetGroupNames = [],
      HasProfile = (\<lambda>n. False), GetProfile = (\<lambda>n. LoadFailed ErrNotFound),
      HasProfileGroup = (\<lambda>n. False), GetProfileGroup = (\<lambda>n. LoadFailed ErrNotFound),
      GetConfigFile = ''profiles.conf'', scheduleDefaults = plainSchedule\<rparr>"

text \<open>
  A configuration with three profiles and one group. The profile \<open>docs\<close> declares no
  schedule.
\<close>

definition backupHome :: Schedule where
  "backupHome = plainSchedule\<lparr>origin := ScheduleOrigin ''home'' ''backup'',
                              IgnoreOnBattery := MaybeTrue\<rparr>"

definition checkMail :: Schedule where
  "checkMail = plainSchedule\<lparr>origin := ScheduleOrigin ''mail'' ''check'',
                             IgnoreOnBatteryLessThan := 40\<rparr>"

definition backupFull :: Schedule where
  "backupFull = plainSchedule\<lparr>origin := ScheduleOrigin ''full'' ''backup''\<rparr>"

definition homeProfile :: Profile where
  "homeProfile = \<lparr>schedules = [(''backup'', backupHome)],
                   schedulableCommands = [''backup'', ''check'', ''prune'']\<rparr>"

definition docsProfile :: Profile where
  "docsProfile = \<lparr>schedules = [], schedulableCommands = [''backup'', ''check'']\<rparr>"

definition mailProfile :: Profile where
  "mailProfile = \<lparr>schedules = [(''check'', checkMail)],
                   schedulableCommands = [''backup'', ''check'']\<rparr>"

definition fullGroup :: Group where
  "fullGroup = \<lparr>schedules = [(''backup'', backupFull)], schedulableCommands = [''backup'']\<rparr>"

definition exampleConfig :: Config where
  "exampleConfig =
     \<lparr>GetGlobalSection = Inr (GlobalSection 2),
      GetProfileNames = [''home'', ''docs'', ''mail''], GetGroupNames = [''full''],
      HasProfile = (\<lambda>n. n = ''home'' \<or> n = ''docs'' \<or> n = ''mail''),
      GetProfile = (\<lambda>n. if n = ''home'' then Loaded homeProfile
                          else if n = ''docs'' then Loaded docsProfile
                          else if n = ''mail'' then Loaded mailProfile
                          else LoadFailed ErrNotFound),
      HasProfileGroup = (\<lambda>n. n = ''full''),
      GetProfileGroup = (\<lambda>n. if n = ''full'' then Loaded fullGroup else LoadFailed ErrNotFound),
      GetConfigFile = ''profiles.conf'', scheduleDefaults = plainSchedule\<rparr>"

text \<open>A configuration that lists names whose loaders answer "not found".\<close>

definition staleConfig :: Config where
  "staleConfig =
     \<lparr>GetGlobalSection = Inr (GlobalSection 2),
      GetProfileNames = [''home'', ''ghost''], GetGroupNames = [''phantom''],
      HasProfile = (\<lambda>n. n = ''home'' \<or> n = ''ghost''),
      GetProfile = (\<lambda>n. if n = ''home'' then Loaded homeProfile else LoadFailed ErrNotFound),
      HasProfileGroup = (\<lambda>n. n = ''phantom''),
      GetProfileGroup = (\<lambda>n. LoadFailed ErrNotFound),
      GetConfigFile = ''profiles.conf'', scheduleDefaults = plainSchedule\<rparr>"

text \<open>
  Collaborators that never fail; the elevation retry hands back the error it is given.
\<close>

definition quietEnv :: Env where
  "quietEnv =
     \<lparr>scheduleJobs_result = (\<lambda>t h js. None),
      removeJobs_result = (\<lambda>t h js. None),
      statusJobs_result = (\<lambda>t h n js. None),
      removeScheduledJobs_result = (\<lambda>t h f n. None),
      statusScheduledJobs_result = (\<lambda>t h f n. None),
      retryElevated_result = (\<lambda>t err fl. Some err)\<rparr>"

text \<open>The context of a command on a configuration, a profile name and arguments.\<close>

definition exampleContext :: "Config \<Rightarrow> string \<Rightarrow> string list \<Rightarrow> Context" where
  "exampleContext c profileName args =
     \<lparr>ctx_config = c, ctx_global = GlobalSection 2, ctx_flags = CommandLineFlags 0,
      ctx_request = \<lparr>request_profile = profileName, request_schedule = [],
                     request_arguments = args\<rparr>,
      ctx_command = [], ctx_schedule = None, ctx_logTarget = [], ctx_commandOutput = [],
      ctx_stopOnBattery = 0, ctx_lockWait = 0, ctx_noLock = False\<rparr>"

text \<open>
  Collaborators whose handler refuses to remove the jobs of the owner \<open>home\<close> and to
  report on \<open>home\<close>; the elevation retry hands back the error it is given.
\<close>

definition failingEnv :: Env where
  "failingEnv =
     \<lparr>scheduleJobs_result = (\<lambda>t h js. None),
      removeJobs_result =
        (\<lambda>t h js. if ''home'' \<in> set (map (Name \<circ> origin) js)
                   then Some (ErrorsNew ''access denied'') else None),
      statusJobs_result =
        (\<lambda>t h n js. if n = ''home'' then Some (ErrorsNew ''access denied'') else None),
      removeScheduledJobs_result = (\<lambda>t h f n. None),
      statusScheduledJobs_result = (\<lambda>t h f n. None),
      retryElevated_result = (\<lambda>t err fl. Some err)\<rparr>"

text \<open>
  Collaborators whose handler refuses to report on the recorded jobs; the elevation
  retry hands back the error it is given.
\<close>

definition refusingEnv :: Env where
  "refusingEnv =
     \<lparr>scheduleJobs_result = (\<lambda>t h js. None),
      removeJobs_result = (\<lambda>t h js. None),
      statusJobs_result = (\<lambda>t h n js. None),
      removeScheduledJobs_result = (\<lambda>t h f n. None),
      statusScheduledJobs_result = (\<lambda>t h f n. Some (ErrorsNew ''access denied'')),
      retryElevated_result = (\<lambda>t err fl. Some err)\<rparr>"

section \<open>Predicates on events\<close>

text \<open>The events that are a dispatch to the create operation of a handler.\<close>

fun isCreateDispatch :: "event \<Rightarrow> bool" where
  "isCreateDispatch (CallScheduleJobs h js) = True"
| "isCreateDispatch ev = False"

text \<open>The events that are a report of the current protocol of statusSchedule.\<close>

fun isStatusCurrent :: "event \<Rightarrow> bool" where
  "isStatusCurrent (CallStatusScheduledJobs h f p) = True"
| "isStatusCurrent ev = False"

text \<open>The events that are a dispatch to the remove operation of a handler.\<close>

fun isRemoveDispatch :: "event \<Rightarrow> bool" where
  "isRemoveDispatch (CallRemoveJobs h js) = True"
| "isRemoveDispatch ev = False"

section \<open>The kinds in title case\<close>

lemma Title_kinds [simp]:
  "Title ''profile'' = ''Profile''"
  "Title ''group'' = ''Group''"
  by (simp_all add: toUpperASCII_def toLowerASCII_def)

declare Title.simps [simp del]

section \<open>Selector: properties\<close>

text \<open>
  C3, as stated, fails: with \<open>--all\<close> and a configuration without profiles and groups
  the selector does not return the empty list but the requested name.
\<close>

theorem selectProfilesAndGroups_all_empty_counterexample:
  "selectProfilesAndGroups emptyConfig ''default'' [''--all'']
     \<noteq> GetProfileNames emptyConfig @ GetGroupNames emptyConfig"
  by (simp add: selectProfilesAndGroups_def emptyConfig_def)

text \<open>
  C3, amended: with \<open>--all\<close> the selector returns all profile names followed by all
  group names, whatever the requested name, when there is at least one such name; when
  both name lists are empty it returns the one-element list of the requested name.
\<close>

theorem selectProfilesAndGroups_all:
  assumes "''--all'' \<in> set args"
  shows "selectProfilesAndGroups c profileName args =
           (if GetProfileNames c @ GetGroupNames c = [] then [profileName]
            else GetProfileNames c @ GetGroupNames c)"
  using assms by (simp add: selectProfilesAndGroups_def Let_def)

theorem selectProfilesAndGroups_all_witness:
  "''--all'' \<in> set [''--all''] \<and>
   selectProfilesAndGroups emptyConfig ''default'' [''--all''] = [''default'']"
  using selectProfilesAndGroups_all [of "[''--all'']" emptyConfig "''default''"]
  by (simp add: emptyConfig_def)

section \<open>Job set builder: the remove set\<close>








section \<open>Reconciler: the create path\<close>

lemma getScheduleJobs_events:
  "getScheduleJobs c n = (r, es) \<Longrightarrow> es = [] \<or> (\<exists>p. es = [DeprecationNotices p])"
  by (auto simp: getScheduleJobs_def split: sum.splits if_splits prod.splits)

lemma getScheduleJobs_no_dispatch:
  "getScheduleJobs c n = (r, es) \<Longrightarrow> filter isCreateDispatch es = []"
  by (drule getScheduleJobs_events) auto

lemma collectJobs_no_dispatch:
  "filter isCreateDispatch (snd (collectJobs c args names acc t)) = filter isCreateDispatch t"
proof (induction names arbitrary: acc t)
  case Nil
  show ?case by simp
next
  case (Cons n names)
  obtain r es where g: "getScheduleJobs c n = (r, es)" by (cases "getScheduleJobs c n")
  have nd: "filter isCreateDispatch es = []" by (rule getScheduleJobs_no_dispatch [OF g])
  show ?case
  proof (cases r)
    case (Inl e)
    then show ?thesis using g nd by simp
  next
    case (Inr v)
    obtain sc js sch where v: "v = (sc, js, sch)" by (cases v)
    show ?thesis
      using g nd Inr v Cons.IH
      by (simp add: Let_def split: option.splits)
  qed
qed

lemma collectJobs_failure:
  assumes "\<exists>n \<in> set names.
             (\<exists>e. fst (getScheduleJobs c n) = Inl e) \<or>
             (\<exists>sc sch. fst (getScheduleJobs c n) = Inr (sc, [], sch) \<and> ''--all'' \<notin> set args)"
  shows "\<exists>n \<in> set names. \<exists>e. fst (collectJobs c args names acc t) = Inl e \<and>
            (fst (getScheduleJobs c n) = Inl e \<or>
             (\<exists>sc sch. fst (getScheduleJobs c n) = Inr (sc, [], sch) \<and> ''--all'' \<notin> set args
                \<and> requireScheduleJobs [] n = Some e))"
  using assms
proof (induction names arbitrary: acc t)
  case Nil
  then show ?case by simp
next
  case (Cons n names)
  obtain r es where g: "getScheduleJobs c n = (r, es)" by (cases "getScheduleJobs c n")
  show ?case
  proof (cases r)
    case (Inl e)
    then show ?thesis using g by simp
  next
    case (Inr v)
    obtain sc js sch where v: "v = (sc, js, sch)" by (cases v)
    show ?thesis
    proof (cases "js = [] \<and> ''--all'' \<notin> set args")
      case True
      then show ?thesis using g Inr v by (simp add: requireScheduleJobs_def)
    next
      case False
      then have rest: "\<exists>n \<in> set names.
             (\<exists>e. fst (getScheduleJobs c n) = Inl e) \<or>
             (\<exists>sc sch. fst (getScheduleJobs c n) = Inr (sc, [], sch) \<and> ''--all'' \<notin> set args)"
        using Cons.prems g Inr v by auto
      have step: "\<exists>acc' t'. collectJobs c args (n # names) acc t = collectJobs c args names acc' t'"
        using False g Inr v by (auto simp: requireScheduleJobs_def Let_def)
      then obtain acc' t' where
        s: "collectJobs c args (n # names) acc t = collectJobs c args names acc' t'" by blast
      from Cons.IH [OF rest, of acc' t'] show ?thesis
        unfolding s by auto
    qed
  qed
qed

lemma collectJobs_append:
  "collectJobs c args (xs @ ys) acc t =
     (case collectJobs c args xs acc t of
        (Inl e, t1) \<Rightarrow> (Inl e, t1)
      | (Inr acc1, t1) \<Rightarrow> collectJobs c args ys acc1 t1)"
proof (induction xs arbitrary: acc t)
  case Nil
  show ?case by simp
next
  case (Cons n xs)
  obtain r es where g: "getScheduleJobs c n = (r, es)" by (cases "getScheduleJobs c n")
  show ?case
  proof (cases r)
    case (Inl e)
    then show ?thesis using g by simp
  next
    case (Inr v)
    obtain sc js sch where v: "v = (sc, js, sch)" by (cases v)
    show ?thesis
      using g Inr v Cons.IH by (simp add: Let_def split: option.splits)
  qed
qed

lemma collectJobs_skip:
  assumes "''--all'' \<in> set args" "getScheduleJobs c n = (Inr (sc, [], sch), es)"
  shows "collectJobs c args (n # rest) acc t = collectJobs c args rest acc (t @ es)"
  using assms by (simp add: requireScheduleJobs_def)

lemma collectJobs_all_resolve:
  assumes "''--all'' \<in> set args"
      and "\<forall>n \<in> set names. \<exists>v. fst (getScheduleJobs c n) = Inr v"
  shows "\<exists>allJobs t1. collectJobs c args names acc t = (Inr allJobs, t1) \<and>
           map pj_name allJobs = map pj_name acc @
             filter (\<lambda>n. \<exists>sc js sch. fst (getScheduleJobs c n) = Inr (sc, js, sch) \<and> js \<noteq> []) names"
  using assms(2)
proof (induction names arbitrary: acc t)
  case Nil
  show ?case by simp
next
  case (Cons n names)
  obtain r es where g: "getScheduleJobs c n = (r, es)" by (cases "getScheduleJobs c n")
  from Cons.prems g obtain sc js sch where r: "r = Inr (sc, js, sch)" by (cases r) auto
  have rest: "\<forall>n \<in> set names. \<exists>v. fst (getScheduleJobs c n) = Inr v" using Cons.prems by simp
  show ?case
  proof (cases "js = []")
    case True
    then show ?thesis
      using g r assms(1) Cons.IH [OF rest, of acc "t @ es"]
      by (simp add: requireScheduleJobs_def)
  next
    case False
    let ?js1 = "if ''--no-start'' \<in> set args then map (SetFlag ''no-start'' []) js else js"
    let ?js2 = "if ''--reload'' \<in> set args then map (SetFlag ''reload'' []) ?js1 else ?js1"
    let ?acc = "acc @ [\<lparr>pj_schedulerConfig = sc, pj_name = n, pj_jobs = ?js2\<rparr>]"
    have s: "collectJobs c args (n # names) acc t = collectJobs c args names ?acc (t @ es)"
      using False g r by (simp add: requireScheduleJobs_def Let_def)
    from Cons.IH [OF rest, of ?acc "t @ es"] show ?thesis
      unfolding s using False g r by simp
  qed
qed

lemma scheduleAll_quiet:
  assumes "\<forall>t h js. scheduleJobs_result env t h js = None"
  shows "scheduleAll env fl allJobs t =
           (None, t @ map (\<lambda>j. CallScheduleJobs (NewHandler (pj_schedulerConfig j)) (pj_jobs j)) allJobs)"
  using assms by (induction allJobs arbitrary: t) (simp_all add: scheduleJobs_def)

lemma collectJobs_extends:
  "\<exists>es. snd (collectJobs c args names acc t) = t @ es \<and> filter isCreateDispatch es = []"
proof (induction names arbitrary: acc t)
  case Nil
  show ?case by simp
next
  case (Cons n names)
  obtain r es where g: "getScheduleJobs c n = (r, es)" by (cases "getScheduleJobs c n")
  have nd: "filter isCreateDispatch es = []" by (rule getScheduleJobs_no_dispatch [OF g])
  show ?case
  proof (cases r)
    case (Inl e)
    then show ?thesis using g nd by simp
  next
    case (Inr v)
    obtain sc js sch where v: "v = (sc, js, sch)" by (cases v)
    have "\<exists>acc'. collectJobs c args (n # names) acc t = collectJobs c args names acc' (t @ es)
            \<or> snd (collectJobs c args (n # names) acc t) = t @ es"
      using g Inr v by (auto simp: Let_def split: option.splits)
    then obtain acc' where
      "collectJobs c args (n # names) acc t = collectJobs c args names acc' (t @ es)
         \<or> snd (collectJobs c args (n # names) acc t) = t @ es" by blast
    then show ?thesis
    proof
      assume s: "collectJobs c args (n # names) acc t = collectJobs c args names acc' (t @ es)"
      from Cons.IH [of acc' "t @ es"] obtain es' where
        "snd (collectJobs c args names acc' (t @ es)) = (t @ es) @ es'"
        "filter isCreateDispatch es' = []" by blast
      then show ?thesis unfolding s using nd by (intro exI [of _ "es @ es'"]) simp
    next
      assume "snd (collectJobs c args (n # names) acc t) = t @ es"
      then show ?thesis using nd by blast
    qed
  qed
qed

lemma exampleContext_fields:
  "ctx_config (exampleContext c p a) = c"
  "ctx_flags (exampleContext c p a) = CommandLineFlags 0"
  "ctx_global (exampleContext c p a) = GlobalSection 2"
  "request_profile (ctx_request (exampleContext c p a)) = p"
  "request_arguments (ctx_request (exampleContext c p a)) = a"
  by (simp_all add: exampleContext_def)

lemma exampleConfig_resolve:
  "getScheduleJobs exampleConfig ''home''
     = (Inr (NewSchedulerConfig (GlobalSection 2), [backupHome], IsProfile homeProfile),
        [DeprecationNotices homeProfile])"
  "getScheduleJobs exampleConfig ''docs''
     = (Inr (NewSchedulerConfig (GlobalSection 2), [], IsProfile docsProfile),
        [DeprecationNotices docsProfile])"
  "getScheduleJobs exampleConfig ''mail''
     = (Inr (NewSchedulerConfig (GlobalSection 2), [checkMail], IsProfile mailProfile),
        [DeprecationNotices mailProfile])"
  "getScheduleJobs exampleConfig ''full''
     = (Inr (NewSchedulerConfig (GlobalSection 2), [backupFull], IsGroup fullGroup), [])"
  by (simp_all add: getScheduleJobs_def getProfileScheduleJobs_def getGroupScheduleJobs_def
        exampleConfig_def homeProfile_def docsProfile_def mailProfile_def fullGroup_def)

lemma exampleConfig_select:
  "selectProfilesAndGroups exampleConfig p [''--all''] = [''home'', ''docs'', ''mail'', ''full'']"
  "selectProfilesAndGroups exampleConfig p [] = [p]"
  by (simp_all add: selectProfilesAndGroups_def exampleConfig_def)

text \<open>
  C1: when a selected name does not resolve (its lookup fails, or it has no schedule
  and \<open>--all\<close> is not given), createSchedule returns the resolution error of a selected
  name and adds no dispatch to the create operation of a handler, whatever the other
  selected names are.
\<close>

theorem createSchedule_no_partial_dispatch:
  assumes "\<exists>n \<in> set (selectProfilesAndGroups (ctx_config ctx)
                        (request_profile (ctx_request ctx)) (request_arguments (ctx_request ctx))).
             (\<exists>e. fst (getScheduleJobs (ctx_config ctx) n) = Inl e) \<or>
             (\<exists>sc sch. fst (getScheduleJobs (ctx_config ctx) n) = Inr (sc, [], sch)
                \<and> ''--all'' \<notin> set (request_arguments (ctx_request ctx)))"
  shows "(\<exists>n \<in> set (selectProfilesAndGroups (ctx_config ctx)
                        (request_profile (ctx_request ctx)) (request_arguments (ctx_request ctx))).
          \<exists>e. fst (createSchedule env ctx t) = Some e \<and>
            (fst (getScheduleJobs (ctx_config ctx) n) = Inl e \<or>
             (\<exists>sc sch. fst (getScheduleJobs (ctx_config ctx) n) = Inr (sc, [], sch)
                \<and> ''--all'' \<notin> set (request_arguments (ctx_request ctx))
                \<and> requireScheduleJobs [] n = Some e)))
       \<and> filter isCreateDispatch (snd (createSchedule env ctx t)) = filter isCreateDispatch t"
proof -
  let ?c = "ctx_config ctx" and ?args = "request_arguments (ctx_request ctx)"
  let ?names = "selectProfilesAndGroups ?c (request_profile (ctx_request ctx)) ?args"
  from collectJobs_failure [OF assms, of "[]" t] obtain n e where
    n: "n \<in> set ?names" "fst (collectJobs ?c ?args ?names [] t) = Inl e"
       "fst (getScheduleJobs ?c n) = Inl e \<or>
             (\<exists>sc sch. fst (getScheduleJobs ?c n) = Inr (sc, [], sch) \<and> ''--all'' \<notin> set ?args
                \<and> requireScheduleJobs [] n = Some e)"
    by blast
  obtain t1 where c1: "collectJobs ?c ?args ?names [] t = (Inl e, t1)"
    using n(2) by (cases "collectJobs ?c ?args ?names [] t") auto
  have t1: "filter isCreateDispatch t1 = filter isCreateDispatch t"
    using collectJobs_no_dispatch [of ?c ?args ?names "[]" t] c1 by simp
  have r: "createSchedule env ctx t = (Some e, t1 @ [ConfigurationIssues])"
    using c1 by (simp add: createSchedule_def Let_def)
  show ?thesis
    using n(1) n(3) t1 unfolding r by auto
qed

theorem createSchedule_no_partial_dispatch_witness:
  "fst (getScheduleJobs staleConfig ''ghost'')
     = Inl (Errorf [Lit ''profile '', Lit apos, ArgS ''ghost'', Lit apos, Lit '': '']
              (Some ErrNotFound))
   \<and> createSchedule quietEnv (exampleContext staleConfig ''home'' [''--all'']) []
     = (Some (Errorf [Lit ''profile '', Lit apos, ArgS ''ghost'', Lit apos, Lit '': '']
                (Some ErrNotFound)),
        [DeprecationNotices homeProfile, ConfigurationIssues])"
proof -
  let ?ctx = "exampleContext staleConfig ''home'' [''--all'']"
  have gg: "getScheduleJobs staleConfig ''ghost''
     = (Inl (Errorf [Lit ''profile '', Lit apos, ArgS ''ghost'', Lit apos, Lit '': '']
              (Some ErrNotFound)), [])"
    by (simp add: getScheduleJobs_def getProfileScheduleJobs_def staleConfig_def)
  have sel: "selectProfilesAndGroups staleConfig ''home'' [''--all'']
               = [''home'', ''ghost'', ''phantom'']"
    by (simp add: selectProfilesAndGroups_def staleConfig_def)
  have h: "\<exists>n \<in> set (selectProfilesAndGroups (ctx_config ?ctx)
                        (request_profile (ctx_request ?ctx)) (request_arguments (ctx_request ?ctx))).
             (\<exists>e. fst (getScheduleJobs (ctx_config ?ctx) n) = Inl e) \<or>
             (\<exists>sc sch. fst (getScheduleJobs (ctx_config ?ctx) n) = Inr (sc, [], sch)
                \<and> ''--all'' \<notin> set (request_arguments (ctx_request ?ctx)))"
    by (simp add: exampleContext_fields sel gg)
  have gh: "getScheduleJobs staleConfig ''home''
         = (Inr (NewSchedulerConfig (GlobalSection 2), [backupHome], IsProfile homeProfile),
            [DeprecationNotices homeProfile])"
    by (simp add: getScheduleJobs_def getProfileScheduleJobs_def staleConfig_def homeProfile_def)
  have r: "createSchedule quietEnv ?ctx []
     = (Some (Errorf [Lit ''profile '', Lit apos, ArgS ''ghost'', Lit apos, Lit '': '']
                (Some ErrNotFound)),
        [DeprecationNotices homeProfile, ConfigurationIssues])"
    by (simp add: createSchedule_def Let_def exampleContext_fields sel gh gg
          requireScheduleJobs_def)
  show ?thesis
    using createSchedule_no_partial_dispatch [OF h, of quietEnv "[]"] gg r by simp
qed

text \<open>
  C5: in the create path a name that resolves to no schedule is skipped under \<open>--all\<close>:
  the loop goes on with the names after it, with the jobs collected before it; when
  all selected names resolve and the handler does not fail, the command succeeds and
  dispatches exactly the names that have a schedule. Without \<open>--all\<close> the command
  fails with the error "no schedule found for profile" that quotes the name.
\<close>

theorem createSchedule_empty_job_set:
  fixes ctx :: Context
  defines "c \<equiv> ctx_config ctx"
      and "args \<equiv> request_arguments (ctx_request ctx)"
      and "profileName \<equiv> request_profile (ctx_request ctx)"
  shows "(''--all'' \<in> set args \<and> getScheduleJobs c n = (Inr (sc, [], sch), es) \<longrightarrow>
            collectJobs c args (before @ n # rest) acc t =
              (case collectJobs c args before acc t of
                 (Inl e, t1) \<Rightarrow> (Inl e, t1)
               | (Inr acc1, t1) \<Rightarrow> collectJobs c args rest acc1 (t1 @ es)))
       \<and> (''--all'' \<in> set args
            \<and> (\<forall>n \<in> set (selectProfilesAndGroups c profileName args).
                  \<exists>v. fst (getScheduleJobs c n) = Inr v)
            \<and> (\<forall>t h js. scheduleJobs_result env t h js = None) \<longrightarrow>
            fst (createSchedule env ctx t) = None
            \<and> (\<exists>(allJobs :: profileJobs list) es.
                  snd (createSchedule env ctx t) =
                    t @ es @ map (\<lambda>j. CallScheduleJobs (NewHandler (pj_schedulerConfig j)) (pj_jobs j))
                               allJobs @ [ConfigurationIssues]
                  \<and> filter isCreateDispatch es = []
                  \<and> map pj_name allJobs =
                      filter (\<lambda>n. \<exists>sc js sch. fst (getScheduleJobs c n) = Inr (sc, js, sch)
                                     \<and> js \<noteq> [])
                        (selectProfilesAndGroups c profileName args)))
       \<and> (''--all'' \<notin> set args \<and> getScheduleJobs c profileName = (Inr (sc, [], sch), es) \<longrightarrow>
            createSchedule env ctx t =
              (Some (Errorf [Lit ''no schedule found for profile '', Lit apos, ArgS profileName,
                             Lit apos] None),
               t @ es @ [ConfigurationIssues])
            \<and> Error r (Errorf [Lit ''no schedule found for profile '', Lit apos, ArgS profileName,
                               Lit apos] None)
                = ''no schedule found for profile '' @ apos @ profileName @ apos)"
proof (intro conjI impI)
  assume a: "''--all'' \<in> set args \<and> getScheduleJobs c n = (Inr (sc, [], sch), es)"
  show "collectJobs c args (before @ n # rest) acc t =
              (case collectJobs c args before acc t of
                 (Inl e, t1) \<Rightarrow> (Inl e, t1)
               | (Inr acc1, t1) \<Rightarrow> collectJobs c args rest acc1 (t1 @ es))"
    using a by (simp add: collectJobs_append requireScheduleJobs_def split: prod.splits sum.splits)
next
  assume a: "''--all'' \<in> set args
            \<and> (\<forall>n \<in> set (selectProfilesAndGroups c profileName args).
                  \<exists>v. fst (getScheduleJobs c n) = Inr v)
            \<and> (\<forall>t h js. scheduleJobs_result env t h js = None)"
  let ?names = "selectProfilesAndGroups c profileName args"
  from a collectJobs_all_resolve [of args ?names c "[]" t] obtain allJobs t1 where
    cj: "collectJobs c args ?names [] t = (Inr allJobs, t1)"
        "map pj_name allJobs =
           filter (\<lambda>n. \<exists>sc js sch. fst (getScheduleJobs c n) = Inr (sc, js, sch) \<and> js \<noteq> []) ?names"
    by auto
  from collectJobs_extends [of c args ?names "[]" t] cj(1) obtain es1 where
    es1: "t1 = t @ es1" "filter isCreateDispatch es1 = []" by auto
  have sa: "scheduleAll env (ctx_flags ctx) allJobs t1 =
              (None, t1 @ map (\<lambda>j. CallScheduleJobs (NewHandler (pj_schedulerConfig j)) (pj_jobs j)) allJobs)"
    using a by (simp add: scheduleAll_quiet)
  have cs: "createSchedule env ctx t =
              (None, t @ es1 @ map (\<lambda>j. CallScheduleJobs (NewHandler (pj_schedulerConfig j)) (pj_jobs j)) allJobs
                       @ [ConfigurationIssues])"
    using cj(1) sa es1(1) by (simp add: createSchedule_def Let_def c_def args_def profileName_def)
  show "fst (createSchedule env ctx t) = None" using cs by simp
  show "\<exists>(allJobs :: profileJobs list) es.
                  snd (createSchedule env ctx t) =
                    t @ es @ map (\<lambda>j. CallScheduleJobs (NewHandler (pj_schedulerConfig j)) (pj_jobs j))
                               allJobs @ [ConfigurationIssues]
                  \<and> filter isCreateDispatch es = []
                  \<and> map pj_name allJobs =
                      filter (\<lambda>n. \<exists>sc js sch. fst (getScheduleJobs c n) = Inr (sc, js, sch)
                                     \<and> js \<noteq> [])
                        (selectProfilesAndGroups c profileName args)"
  proof (intro exI conjI)
    show "snd (createSchedule env ctx t) =
            t @ es1 @ map (\<lambda>j. CallScheduleJobs (NewHandler (pj_schedulerConfig j)) (pj_jobs j))
                       allJobs @ [ConfigurationIssues]"
      using cs by simp
    show "filter isCreateDispatch es1 = []" by (rule es1(2))
    show "map pj_name allJobs =
            filter (\<lambda>n. \<exists>sc js sch. fst (getScheduleJobs c n) = Inr (sc, js, sch) \<and> js \<noteq> [])
              (selectProfilesAndGroups c profileName args)"
      by (rule cj(2))
  qed
next
  assume a: "''--all'' \<notin> set args \<and> getScheduleJobs c profileName = (Inr (sc, [], sch), es)"
  have sel: "selectProfilesAndGroups c profileName args = [profileName]"
    using a by (simp add: selectProfilesAndGroups_def)
  show "createSchedule env ctx t =
              (Some (Errorf [Lit ''no schedule found for profile '', Lit apos, ArgS profileName,
                             Lit apos] None),
               t @ es @ [ConfigurationIssues])"
    using a sel
    by (simp add: createSchedule_def Let_def c_def [symmetric] args_def [symmetric]
          profileName_def [symmetric] requireScheduleJobs_def)
next
  show "Error r (Errorf [Lit ''no schedule found for profile '', Lit apos, ArgS profileName,
                               Lit apos] None)
                = ''no schedule found for profile '' @ apos @ profileName @ apos"
    by simp
qed

theorem createSchedule_empty_job_set_witness:
  "getScheduleJobs exampleConfig ''docs''
     = (Inr (NewSchedulerConfig (GlobalSection 2), [], IsProfile docsProfile),
        [DeprecationNotices docsProfile])
   \<and> collectJobs exampleConfig [''--all''] [''home'', ''docs'', ''mail''] [] []
     = collectJobs exampleConfig [''--all''] [''mail'']
         [\<lparr>pj_schedulerConfig = NewSchedulerConfig (GlobalSection 2), pj_name = ''home'',
           pj_jobs = [backupHome]\<rparr>]
         [DeprecationNotices homeProfile, DeprecationNotices docsProfile]
   \<and> createSchedule quietEnv (exampleContext exampleConfig ''docs'' [''--all'']) []
     = (None,
        [DeprecationNotices homeProfile, DeprecationNotices docsProfile,
         DeprecationNotices mailProfile,
         CallScheduleJobs (NewHandler (NewSchedulerConfig (GlobalSection 2))) [backupHome],
         CallScheduleJobs (NewHandler (NewSchedulerConfig (GlobalSection 2))) [checkMail],
         CallScheduleJobs (NewHandler (NewSchedulerConfig (GlobalSection 2))) [backupFull],
         ConfigurationIssues])
   \<and> createSchedule quietEnv (exampleContext exampleConfig ''docs'' []) []
     = (Some (Errorf [Lit ''no schedule found for profile '', Lit apos, ArgS ''docs'', Lit apos]
                None),
        [DeprecationNotices docsProfile, ConfigurationIssues])"
proof -
  let ?all = "exampleContext exampleConfig ''docs'' [''--all'']"
  let ?one = "exampleContext exampleConfig ''docs'' []"
  let ?sc = "NewSchedulerConfig (GlobalSection 2)"
  note T1 = createSchedule_empty_job_set
              [of ?all "''docs''" ?sc "IsProfile docsProfile" "[DeprecationNotices docsProfile]"
                  "[''home'']" "[''mail'']" "[]" "[]" quietEnv]
  note T3 = createSchedule_empty_job_set
              [of ?one "''docs''" ?sc "IsProfile docsProfile" "[DeprecationNotices docsProfile]"
                  "[]" "[]" "[]" "[]" quietEnv]
  have skip: "collectJobs exampleConfig [''--all''] [''home'', ''docs'', ''mail''] [] []
     = collectJobs exampleConfig [''--all''] [''mail'']
         [\<lparr>pj_schedulerConfig = ?sc, pj_name = ''home'', pj_jobs = [backupHome]\<rparr>]
         [DeprecationNotices homeProfile, DeprecationNotices docsProfile]"
    using T1 by (simp add: exampleContext_fields exampleConfig_resolve requireScheduleJobs_def)
  have ok: "fst (createSchedule quietEnv ?all []) = None"
    using T1
    by (simp add: exampleContext_fields exampleConfig_resolve exampleConfig_select quietEnv_def)
  have trace: "snd (createSchedule quietEnv ?all [])
     = [DeprecationNotices homeProfile, DeprecationNotices docsProfile,
         DeprecationNotices mailProfile,
         CallScheduleJobs (NewHandler ?sc) [backupHome],
         CallScheduleJobs (NewHandler ?sc) [checkMail],
         CallScheduleJobs (NewHandler ?sc) [backupFull],
         ConfigurationIssues]"
    by (simp add: createSchedule_def Let_def exampleContext_fields exampleConfig_resolve
          exampleConfig_select requireScheduleJobs_def scheduleJobs_def quietEnv_def)
  have fatal: "createSchedule quietEnv ?one []
     = (Some (Errorf [Lit ''no schedule found for profile '', Lit apos, ArgS ''docs'', Lit apos]
                None),
        [DeprecationNotices docsProfile, ConfigurationIssues])"
    using T3 by (simp add: exampleContext_fields exampleConfig_resolve)
  show ?thesis
    using skip ok trace fatal exampleConfig_resolve(2)
    by (simp add: prod_eq_iff)
qed

section \<open>Job set builder: not-found failures\<close>

text \<open>
  C8 at its failing input: the group \<open>phantom\<close> is declared and its loader answers
  "not found". The error of the resolution quotes the name but wraps nothing, so it
  does not match \<open>ErrNotFound\<close>; the error of the same failure of the profile \<open>ghost\<close>
  wraps the loader's error and matches.
\<close>

theorem getScheduleJobs_group_not_found_unwrapped:
  "getScheduleJobs staleConfig ''phantom''
     = (Inl (Errorf [Lit ''group '', Lit apos, ArgS ''phantom'', Lit apos, Lit '' not found'']
               None), [])
   \<and> \<not> errors_Is (Errorf [Lit ''group '', Lit apos, ArgS ''phantom'', Lit apos,
                            Lit '' not found''] None) ErrNotFound
   \<and> getScheduleJobs staleConfig ''ghost''
     = (Inl (Errorf [Lit ''profile '', Lit apos, ArgS ''ghost'', Lit apos, Lit '': '']
               (Some ErrNotFound)), [])
   \<and> errors_Is (Errorf [Lit ''profile '', Lit apos, ArgS ''ghost'', Lit apos, Lit '': '']
                  (Some ErrNotFound)) ErrNotFound"
  by (simp add: getScheduleJobs_def getProfileScheduleJobs_def getGroupScheduleJobs_def
        staleConfig_def)

section \<open>Reconciler: status\<close>

lemma getScheduleJobs_no_current:
  "getScheduleJobs c n = (r, es) \<Longrightarrow> filter isStatusCurrent es = []"
  by (drule getScheduleJobs_events) auto

lemma statusScheduleProfileOrGroup_no_current:
  "filter isStatusCurrent (snd (statusScheduleProfileOrGroup env sc scheds fl n t))
     = filter isStatusCurrent t"
  by (simp add: statusScheduleProfileOrGroup_def statusJobs_def retryElevated_def
        split: option.splits)

lemma statusLegacyAll_no_current:
  "filter isStatusCurrent (snd (statusLegacyAll env c fl names t)) = filter isStatusCurrent t"
proof (induction names arbitrary: t)
  case Nil
  show ?case by simp
next
  case (Cons n names)
  obtain r es where g: "getScheduleJobs c n = (r, es)" by (cases "getScheduleJobs c n")
  have nd: "filter isStatusCurrent es = []" by (rule getScheduleJobs_no_current [OF g])
  show ?case
  proof (cases r)
    case (Inl e)
    then show ?thesis using g nd by simp
  next
    case (Inr v)
    obtain sc scheds sch where v: "v = (sc, scheds, sch)" by (cases v)
    show ?thesis
    proof (cases "length scheds = 0")
      case True
      then show ?thesis using g Inr v nd Cons.IH by simp
    next
      case False
      let ?t = "t @ es @ [LogInfo (Title (Kind sch)) n]"
      obtain r1 t1 where s: "statusScheduleProfileOrGroup env sc scheds fl n ?t = (r1, t1)"
        by (cases "statusScheduleProfileOrGroup env sc scheds fl n ?t")
      have t1: "filter isStatusCurrent t1 = filter isStatusCurrent t"
        using statusScheduleProfileOrGroup_no_current [of env sc scheds fl n ?t] s nd by simp
      show ?thesis
        using False g Inr v s t1 Cons.IH by (cases r1) simp_all
    qed
  qed
qed

lemma statusLegacyAll_result:
  "fst (statusLegacyAll env c fl names t) = None
     \<longleftrightarrow> (\<forall>n \<in> set names. \<exists>v. fst (getScheduleJobs c n) = Inr v)"
proof (induction names arbitrary: t)
  case Nil
  show ?case by simp
next
  case (Cons n names)
  obtain r es where g: "getScheduleJobs c n = (r, es)" by (cases "getScheduleJobs c n")
  show ?case
  proof (cases r)
    case (Inl e)
    then show ?thesis using g by simp
  next
    case (Inr v)
    obtain sc scheds sch where v: "v = (sc, scheds, sch)" by (cases v)
    show ?thesis
      using g Inr v Cons.IH by (simp split: prod.splits option.splits)
  qed
qed

lemma statusCurrent_trace:
  "filter isStatusCurrent (snd (statusCurrent env ctx t))
     = filter isStatusCurrent t @
       [CallStatusScheduledJobs (NewHandler (NewSchedulerConfig (ctx_global ctx)))
          (GetConfigFile (ctx_config ctx))
          (if ''--all'' \<in> set (request_arguments (ctx_request ctx)) then []
           else request_profile (ctx_request ctx))]"
  by (simp add: statusCurrent_def statusScheduledJobs_def retryElevated_def Let_def
        split: option.splits)

lemma statusSchedule_current_events:
  "filter isStatusCurrent (snd (statusSchedule env ctx t))
     = filter isStatusCurrent (snd (statusSchedule_body env ctx t))"
  by (simp add: statusSchedule_def split: prod.splits)

lemma staleConfig_resolve:
  "getScheduleJobs staleConfig ''home''
     = (Inr (NewSchedulerConfig (GlobalSection 2), [backupHome], IsProfile homeProfile),
        [DeprecationNotices homeProfile])"
  "getScheduleJobs staleConfig ''ghost''
     = (Inl (Errorf [Lit ''profile '', Lit apos, ArgS ''ghost'', Lit apos, Lit '': '']
               (Some ErrNotFound)), [])"
  by (simp_all add: getScheduleJobs_def getProfileScheduleJobs_def staleConfig_def
        homeProfile_def)

lemma staleConfig_select:
  "selectProfilesAndGroups staleConfig p [''--legacy'', ''--all'']
     = [''home'', ''ghost'', ''phantom'']"
  by (simp add: selectProfilesAndGroups_def staleConfig_def)

lemma exampleConfig_select_legacy:
  "selectProfilesAndGroups exampleConfig p [''--legacy'', ''--all'']
     = [''home'', ''docs'', ''mail'', ''full'']"
  by (simp add: selectProfilesAndGroups_def exampleConfig_def)

lemma exampleConfig_file: "GetConfigFile exampleConfig = ''profiles.conf''"
  by (simp add: exampleConfig_def)

lemma statusLegacyAll_append:
  "statusLegacyAll env c fl (xs @ ys) t =
     (case statusLegacyAll env c fl xs t of
        (Some e, t1) \<Rightarrow> (Some e, t1)
      | (None, t1) \<Rightarrow> statusLegacyAll env c fl ys t1)"
proof (induction xs arbitrary: t)
  case Nil
  show ?case by simp
next
  case (Cons n xs)
  obtain r es where g: "getScheduleJobs c n = (r, es)" by (cases "getScheduleJobs c n")
  show ?case
  proof (cases r)
    case (Inl e)
    then show ?thesis using g by simp
  next
    case (Inr v)
    obtain sc scheds sch where v: "v = (sc, scheds, sch)" by (cases v)
    show ?thesis
      using g Inr v Cons.IH by (simp split: prod.splits option.splits)
  qed
qed

text \<open>
  C2, as stated, fails: with \<open>--legacy\<close> and without \<open>--all\<close> statusSchedule reports on
  the one requested name and returns; the current protocol does not run. With \<open>--legacy\<close>
  and \<open>--all\<close> it does not run either when a selected name does not resolve.
\<close>

theorem statusSchedule_legacy_counterexample:
  "statusSchedule quietEnv (exampleContext exampleConfig ''home'' [''--legacy'']) []
     = (None,
        [LogWarning legacyFlagWarning, DeprecationNotices homeProfile,
         CallStatusJobs (NewHandler (NewSchedulerConfig (GlobalSection 2))) ''home'' [backupHome],
         ConfigurationIssues])
   \<and> filter isStatusCurrent
        (snd (statusSchedule quietEnv (exampleContext exampleConfig ''home'' [''--legacy'']) []))
     = []
   \<and> filter isStatusCurrent
        (snd (statusSchedule quietEnv
                (exampleContext staleConfig ''home'' [''--legacy'', ''--all'']) []))
     = []"
proof -
  have a: "statusSchedule quietEnv (exampleContext exampleConfig ''home'' [''--legacy'']) []
     = (None,
        [LogWarning legacyFlagWarning, DeprecationNotices homeProfile,
         CallStatusJobs (NewHandler (NewSchedulerConfig (GlobalSection 2))) ''home'' [backupHome],
         ConfigurationIssues])"
    by (simp add: statusSchedule_def statusSchedule_body_def Let_def exampleContext_fields
          exampleConfig_resolve statusScheduleProfileOrGroup_def statusJobs_def quietEnv_def)
  have b: "statusSchedule quietEnv (exampleContext staleConfig ''home'' [''--legacy'', ''--all'']) []
     = (Some (Errorf [Lit ''profile '', Lit apos, ArgS ''ghost'', Lit apos, Lit '': '']
                (Some ErrNotFound)),
        [LogWarning legacyFlagWarning, DeprecationNotices homeProfile,
         LogInfo ''Profile'' ''home'',
         CallStatusJobs (NewHandler (NewSchedulerConfig (GlobalSection 2))) ''home'' [backupHome],
         ConfigurationIssues])"
    by (simp add: statusSchedule_def statusSchedule_body_def Let_def exampleContext_fields
          staleConfig_resolve staleConfig_select statusScheduleProfileOrGroup_def
          statusJobs_def quietEnv_def)
  show ?thesis unfolding a b by simp
qed

lemma statusLegacyAll_error:
  "fst (statusLegacyAll env c fl names t) = Some e
     \<Longrightarrow> \<exists>n \<in> set names. fst (getScheduleJobs c n) = Inl e"
proof (induction names arbitrary: t)
  case Nil
  then show ?case by simp
next
  case (Cons n names)
  obtain r es where g: "getScheduleJobs c n = (r, es)" by (cases "getScheduleJobs c n")
  show ?case
  proof (cases r)
    case (Inl e')
    then show ?thesis using g Cons.prems by simp
  next
    case (Inr v)
    obtain sc scheds sch where v: "v = (sc, scheds, sch)" by (cases v)
    have "\<exists>t'. statusLegacyAll env c fl (n # names) t = statusLegacyAll env c fl names t'"
      using g Inr v by (auto split: prod.splits option.splits)
    then obtain t' where
      "statusLegacyAll env c fl (n # names) t = statusLegacyAll env c fl names t'" by blast
    with Cons.prems have "fst (statusLegacyAll env c fl names t') = Some e" by simp
    from Cons.IH [OF this] show ?thesis by auto
  qed
qed

text \<open>
  C2, amended: the current protocol of statusSchedule is one report on all recorded jobs
  of the profile (of every profile under \<open>--all\<close>), with one elevation retry when the
  report fails; its outcome is the outcome of the command. It runs exactly when
  \<open>--legacy\<close> is not given, or when \<open>--legacy\<close> and \<open>--all\<close> are given and every
  selected name resolves, then after the legacy pass. With \<open>--legacy\<close> and \<open>--all\<close> and
  a selected name that does not resolve, the command returns the resolution error of
  a selected name after the legacy pass so far; with \<open>--legacy\<close> and without \<open>--all\<close>
  it returns the outcome of the legacy report on the requested name. In both cases
  the current protocol does not run.
\<close>

theorem statusSchedule_current_protocol:
  fixes ctx :: Context and t :: "event list"
  defines "c \<equiv> ctx_config ctx"
      and "args \<equiv> request_arguments (ctx_request ctx)"
      and "profileName \<equiv> request_profile (ctx_request ctx)"
      and "fl \<equiv> ctx_flags ctx"
      and "h \<equiv> NewHandler (NewSchedulerConfig (ctx_global ctx))"
      and "t0 \<equiv> t @ [LogWarning legacyFlagWarning]"
  defines "names \<equiv> selectProfilesAndGroups c profileName args"
  shows "filter isStatusCurrent (snd (statusSchedule env ctx t))
           = filter isStatusCurrent t @
             (if ''--legacy'' \<notin> set args
                 \<or> (''--all'' \<in> set args
                     \<and> (\<forall>n \<in> set names. \<exists>v. fst (getScheduleJobs c n) = Inr v))
              then [CallStatusScheduledJobs h (GetConfigFile c)
                      (if ''--all'' \<in> set args then [] else profileName)]
              else [])
       \<and> (''--legacy'' \<notin> set args \<longrightarrow>
            statusSchedule env ctx t =
              (case statusScheduledJobs env h (GetConfigFile c)
                      (if ''--all'' \<in> set args then [] else profileName) t of
                 (None, t1) \<Rightarrow> (None, t1 @ [ConfigurationIssues])
               | (Some err, t1) \<Rightarrow>
                   (case retryElevated env err fl t1 of
                      (r, t2) \<Rightarrow> (r, t2 @ [ConfigurationIssues]))))
       \<and> (''--legacy'' \<in> set args \<and> ''--all'' \<in> set args
            \<and> (\<forall>n \<in> set names. \<exists>v. fst (getScheduleJobs c n) = Inr v) \<longrightarrow>
            statusSchedule env ctx t =
              (case statusScheduledJobs env h (GetConfigFile c) []
                      (snd (statusLegacyAll env c fl names t0)) of
                 (None, t1) \<Rightarrow> (None, t1 @ [ConfigurationIssues])
               | (Some err, t1) \<Rightarrow>
                   (case retryElevated env err fl t1 of
                      (r, t2) \<Rightarrow> (r, t2 @ [ConfigurationIssues]))))
       \<and> (''--legacy'' \<in> set args \<and> ''--all'' \<in> set args
            \<and> \<not> (\<forall>n \<in> set names. \<exists>v. fst (getScheduleJobs c n) = Inr v) \<longrightarrow>
            (\<exists>n \<in> set names. \<exists>e.
               fst (getScheduleJobs c n) = Inl e
               \<and> statusSchedule env ctx t
                   = (Some e, snd (statusLegacyAll env c fl names t0) @ [ConfigurationIssues])))
       \<and> (''--legacy'' \<in> set args \<and> ''--all'' \<notin> set args \<longrightarrow>
            statusSchedule env ctx t =
              (case getScheduleJobs c profileName of
                 (Inl err, es) \<Rightarrow> (Some err, t0 @ es @ [ConfigurationIssues])
               | (Inr (sc, scheds, sch), es) \<Rightarrow>
                   if scheds = [] then
                     (None, t0 @ es @
                        [LogWarning (''profile or group '' @ profileName @ '' has no schedule''),
                         ConfigurationIssues])
                   else
                     (case statusScheduleProfileOrGroup env sc scheds fl profileName (t0 @ es) of
                        (r, t1) \<Rightarrow> (r, t1 @ [ConfigurationIssues]))))"
proof (intro conjI impI)
  let ?cur = "CallStatusScheduledJobs h (GetConfigFile c)
                (if ''--all'' \<in> set args then [] else profileName)"
  have cur: "filter isStatusCurrent (snd (statusCurrent env ctx t')) = filter isStatusCurrent t' @ [?cur]"
    for t'
    by (simp add: statusCurrent_trace c_def args_def profileName_def h_def)
  have t0f: "filter isStatusCurrent t0 = filter isStatusCurrent t"
    by (simp add: t0_def)
  show "filter isStatusCurrent (snd (statusSchedule env ctx t))
           = filter isStatusCurrent t @
             (if ''--legacy'' \<notin> set args
                 \<or> (''--all'' \<in> set args
                     \<and> (\<forall>n \<in> set names. \<exists>v. fst (getScheduleJobs c n) = Inr v))
              then [?cur] else [])"
  proof (cases "''--legacy'' \<in> set args")
    case False
    then have "statusSchedule_body env ctx t = statusCurrent env ctx t"
      by (simp add: statusSchedule_body_def Let_def args_def)
    then show ?thesis
      using False cur [of t] by (simp add: statusSchedule_current_events)
  next
    case legacy: True
    show ?thesis
    proof (cases "''--all'' \<in> set args")
      case False
      obtain r es where g: "getScheduleJobs c profileName = (r, es)"
        by (cases "getScheduleJobs c profileName")
      have nd: "filter isStatusCurrent es = []" by (rule getScheduleJobs_no_current [OF g])
      have "filter isStatusCurrent (snd (statusSchedule_body env ctx t)) = filter isStatusCurrent t"
      proof (cases r)
        case (Inl e)
        then show ?thesis
          using legacy False g nd t0f
          by (simp add: statusSchedule_body_def Let_def c_def [symmetric] args_def [symmetric]
                profileName_def [symmetric])
      next
        case (Inr v)
        obtain sc scheds sch where v: "v = (sc, scheds, sch)" by (cases v)
        obtain r1 t1 where s: "statusScheduleProfileOrGroup env sc scheds (ctx_flags ctx)
                                 profileName (t0 @ es) = (r1, t1)"
          by (cases "statusScheduleProfileOrGroup env sc scheds (ctx_flags ctx) profileName (t0 @ es)")
        have t1: "filter isStatusCurrent t1 = filter isStatusCurrent t"
          using statusScheduleProfileOrGroup_no_current
                  [of env sc scheds "ctx_flags ctx" profileName "t0 @ es"] s nd
          by (simp add: t0_def)
        show ?thesis
          using legacy False g Inr v nd s t1 t0f
          by (cases r1)
             (simp_all add: statusSchedule_body_def Let_def c_def [symmetric] args_def [symmetric]
                profileName_def [symmetric] t0_def [symmetric])
      qed
      then show ?thesis
        using legacy False by (simp add: statusSchedule_current_events)
    next
      case all: True
      obtain r1 t1 where s: "statusLegacyAll env c (ctx_flags ctx) names t0 = (r1, t1)"
        by (cases "statusLegacyAll env c (ctx_flags ctx) names t0")
      have t1: "filter isStatusCurrent t1 = filter isStatusCurrent t"
        using statusLegacyAll_no_current [of env c "ctx_flags ctx" names t0] s
        by (simp add: t0_def)
      have r1: "r1 = None \<longleftrightarrow> (\<forall>n \<in> set names. \<exists>v. fst (getScheduleJobs c n) = Inr v)"
        using statusLegacyAll_result [of env c "ctx_flags ctx" names t0] s by simp
      have b: "statusSchedule_body env ctx t =
                 (case r1 of Some err \<Rightarrow> (Some err, t1) | None \<Rightarrow> statusCurrent env ctx t1)"
        using legacy all s
        by (simp add: statusSchedule_body_def Let_def c_def [symmetric] args_def [symmetric]
              profileName_def [symmetric] names_def [symmetric] t0_def [symmetric]
              split: option.splits)
      show ?thesis
      proof (cases r1)
        case None
        then show ?thesis
          using legacy all b t1 r1 cur [of t1]
          by (simp add: statusSchedule_current_events)
      next
        case (Some err)
        then show ?thesis
          using legacy all b t1 r1
          by (simp add: statusSchedule_current_events)
      qed
    qed
  qed
next
  assume "''--legacy'' \<notin> set args"
  then show "statusSchedule env ctx t =
              (case statusScheduledJobs env h (GetConfigFile c)
                      (if ''--all'' \<in> set args then [] else profileName) t of
                 (None, t1) \<Rightarrow> (None, t1 @ [ConfigurationIssues])
               | (Some err, t1) \<Rightarrow>
                   (case retryElevated env err fl t1 of
                      (r, t2) \<Rightarrow> (r, t2 @ [ConfigurationIssues])))"
    by (simp add: statusSchedule_def statusSchedule_body_def statusCurrent_def Let_def
          c_def [symmetric] args_def [symmetric] profileName_def [symmetric]
          fl_def [symmetric] h_def [symmetric]
          split: prod.splits option.splits)
next
  assume a: "''--legacy'' \<in> set args \<and> ''--all'' \<in> set args
            \<and> (\<forall>n \<in> set names. \<exists>v. fst (getScheduleJobs c n) = Inr v)"
  obtain r1 t1 where s: "statusLegacyAll env c fl names t0 = (r1, t1)"
    by (cases "statusLegacyAll env c fl names t0")
  have "r1 = None"
    using statusLegacyAll_result [of env c fl names t0] s a by simp
  then have b: "statusSchedule_body env ctx t = statusCurrent env ctx t1"
    using a s
    by (simp add: statusSchedule_body_def Let_def c_def [symmetric] args_def [symmetric]
          profileName_def [symmetric] names_def [symmetric] t0_def [symmetric]
          fl_def [symmetric])
  show "statusSchedule env ctx t =
              (case statusScheduledJobs env h (GetConfigFile c) []
                      (snd (statusLegacyAll env c fl names t0)) of
                 (None, t1) \<Rightarrow> (None, t1 @ [ConfigurationIssues])
               | (Some err, t1) \<Rightarrow>
                   (case retryElevated env err fl t1 of
                      (r, t2) \<Rightarrow> (r, t2 @ [ConfigurationIssues])))"
    using a s
    by (simp add: statusSchedule_def b statusCurrent_def Let_def
          c_def [symmetric] args_def [symmetric] fl_def [symmetric] h_def [symmetric]
          split: prod.splits option.splits)
next
  assume a: "''--legacy'' \<in> set args \<and> ''--all'' \<in> set args
            \<and> \<not> (\<forall>n \<in> set names. \<exists>v. fst (getScheduleJobs c n) = Inr v)"
  obtain r1 t1 where s: "statusLegacyAll env c fl names t0 = (r1, t1)"
    by (cases "statusLegacyAll env c fl names t0")
  have "r1 \<noteq> None"
    using statusLegacyAll_result [of env c fl names t0] s a by simp
  then obtain e where e: "r1 = Some e" by (cases r1) auto
  then have "fst (statusLegacyAll env c fl names t0) = Some e" using s by simp
  from statusLegacyAll_error [OF this] obtain n where
    n: "n \<in> set names" "fst (getScheduleJobs c n) = Inl e" by blast
  have "statusSchedule env ctx t = (Some e, t1 @ [ConfigurationIssues])"
    using a s e
    by (simp add: statusSchedule_def statusSchedule_body_def Let_def c_def [symmetric]
          args_def [symmetric] profileName_def [symmetric] names_def [symmetric]
          t0_def [symmetric] fl_def [symmetric])
  then have "statusSchedule env ctx t
               = (Some e, snd (statusLegacyAll env c fl names t0) @ [ConfigurationIssues])"
    using s by simp
  with n show "\<exists>n \<in> set names. \<exists>e.
               fst (getScheduleJobs c n) = Inl e
               \<and> statusSchedule env ctx t
                   = (Some e, snd (statusLegacyAll env c fl names t0) @ [ConfigurationIssues])"
    by blast
next
  assume a: "''--legacy'' \<in> set args \<and> ''--all'' \<notin> set args"
  show "statusSchedule env ctx t =
              (case getScheduleJobs c profileName of
                 (Inl err, es) \<Rightarrow> (Some err, t0 @ es @ [ConfigurationIssues])
               | (Inr (sc, scheds, sch), es) \<Rightarrow>
                   if scheds = [] then
                     (None, t0 @ es @
                        [LogWarning (''profile or group '' @ profileName @ '' has no schedule''),
                         ConfigurationIssues])
                   else
                     (case statusScheduleProfileOrGroup env sc scheds fl profileName (t0 @ es) of
                        (r, t1) \<Rightarrow> (r, t1 @ [ConfigurationIssues])))"
    using a
    by (simp add: statusSchedule_def statusSchedule_body_def Let_def c_def [symmetric]
          args_def [symmetric] profileName_def [symmetric] t0_def [symmetric]
          fl_def [symmetric]
          split: prod.splits sum.splits option.splits)
qed

theorem statusSchedule_current_protocol_witness:
  "statusSchedule refusingEnv (exampleContext exampleConfig ''home'' []) []
     = (Some (ErrorsNew ''access denied''),
        [CallStatusScheduledJobs (NewHandler (NewSchedulerConfig (GlobalSection 2)))
           ''profiles.conf'' ''home'',
         CallRetryElevated (ErrorsNew ''access denied'') (CommandLineFlags 0),
         ConfigurationIssues])
   \<and> statusSchedule refusingEnv
         (exampleContext exampleConfig ''home'' [''--legacy'', ''--all'']) []
     = (Some (ErrorsNew ''access denied''),
        [LogWarning legacyFlagWarning,
         DeprecationNotices homeProfile, LogInfo ''Profile'' ''home'',
         CallStatusJobs (NewHandler (NewSchedulerConfig (GlobalSection 2))) ''home'' [backupHome],
         DeprecationNotices docsProfile,
         DeprecationNotices mailProfile, LogInfo ''Profile'' ''mail'',
         CallStatusJobs (NewHandler (NewSchedulerConfig (GlobalSection 2))) ''mail'' [checkMail],
         LogInfo ''Group'' ''full'',
         CallStatusJobs (NewHandler (NewSchedulerConfig (GlobalSection 2))) ''full'' [backupFull],
         CallStatusScheduledJobs (NewHandler (NewSchedulerConfig (GlobalSection 2)))
           ''profiles.conf'' [],
         CallRetryElevated (ErrorsNew ''access denied'') (CommandLineFlags 0),
         ConfigurationIssues])
   \<and> filter isStatusCurrent
         (snd (statusSchedule refusingEnv
                 (exampleContext exampleConfig ''home'' [''--legacy'', ''--all'']) []))
     = [CallStatusScheduledJobs (NewHandler (NewSchedulerConfig (GlobalSection 2)))
          ''profiles.conf'' []]
   \<and> statusSchedule refusingEnv
         (exampleContext staleConfig ''home'' [''--legacy'', ''--all'']) []
     = (Some (Errorf [Lit ''profile '', Lit apos, ArgS ''ghost'', Lit apos, Lit '': '']
                (Some ErrNotFound)),
        [LogWarning legacyFlagWarning,
         DeprecationNotices homeProfile, LogInfo ''Profile'' ''home'',
         CallStatusJobs (NewHandler (NewSchedulerConfig (GlobalSection 2))) ''home'' [backupHome],
         ConfigurationIssues])
   \<and> statusSchedule refusingEnv (exampleContext exampleConfig ''home'' [''--legacy'']) []
     = (None,
        [LogWarning legacyFlagWarning, DeprecationNotices homeProfile,
         CallStatusJobs (NewHandler (NewSchedulerConfig (GlobalSection 2))) ''home'' [backupHome],
         ConfigurationIssues])"
proof -
  let ?one = "exampleContext exampleConfig ''home'' []"
  let ?all = "exampleContext exampleConfig ''home'' [''--legacy'', ''--all'']"
  let ?stale = "exampleContext staleConfig ''home'' [''--legacy'', ''--all'']"
  let ?single = "exampleContext exampleConfig ''home'' [''--legacy'']"
  let ?h = "NewHandler (NewSchedulerConfig (GlobalSection 2))"
  let ?denied = "ErrorsNew ''access denied''"
  let ?fl = "CommandLineFlags 0"
  have sp: "statusScheduleProfileOrGroup refusingEnv (NewSchedulerConfig (GlobalSection 2))
              scheds ?fl n t = (None, t @ [CallStatusJobs ?h n scheds])" for scheds n t
    by (simp add: statusScheduleProfileOrGroup_def statusJobs_def refusingEnv_def)
  have cur: "statusScheduledJobs refusingEnv ?h ''profiles.conf'' p t
               = (Some ?denied, t @ [CallStatusScheduledJobs ?h ''profiles.conf'' p])" for p t
    by (simp add: statusScheduledJobs_def refusingEnv_def)
  have re: "retryElevated refusingEnv ?denied ?fl t
              = (Some ?denied, t @ [CallRetryElevated ?denied ?fl])" for t
    by (simp add: retryElevated_def refusingEnv_def)
  note fields = exampleContext_fields exampleConfig_file
  have a: "statusSchedule refusingEnv ?one []
     = (Some ?denied,
        [CallStatusScheduledJobs ?h ''profiles.conf'' ''home'',
         CallRetryElevated ?denied ?fl, ConfigurationIssues])"
    using statusSchedule_current_protocol [where ctx = ?one and env = refusingEnv and t = "[]"]
    by (simp add: fields cur re)
  have b: "statusSchedule refusingEnv ?all []
     = (Some ?denied,
        [LogWarning legacyFlagWarning,
         DeprecationNotices homeProfile, LogInfo ''Profile'' ''home'',
         CallStatusJobs ?h ''home'' [backupHome],
         DeprecationNotices docsProfile,
         DeprecationNotices mailProfile, LogInfo ''Profile'' ''mail'',
         CallStatusJobs ?h ''mail'' [checkMail],
         LogInfo ''Group'' ''full'',
         CallStatusJobs ?h ''full'' [backupFull],
         CallStatusScheduledJobs ?h ''profiles.conf'' [],
         CallRetryElevated ?denied ?fl, ConfigurationIssues])"
    using statusSchedule_current_protocol [where ctx = ?all and env = refusingEnv and t = "[]"]
    by (simp add: fields exampleConfig_select_legacy exampleConfig_resolve sp cur re)
  have c: "filter isStatusCurrent (snd (statusSchedule refusingEnv ?all []))
     = [CallStatusScheduledJobs ?h ''profiles.conf'' []]"
    using statusSchedule_current_protocol
            [where ctx = ?all and env = refusingEnv and t = "[]", THEN conjunct1]
    by (simp add: fields exampleConfig_select_legacy exampleConfig_resolve)
  have d0: "statusSchedule refusingEnv ?stale []
     = (Some (Errorf [Lit ''profile '', Lit apos, ArgS ''ghost'', Lit apos, Lit '': '']
                (Some ErrNotFound)),
        [LogWarning legacyFlagWarning,
         DeprecationNotices homeProfile, LogInfo ''Profile'' ''home'',
         CallStatusJobs ?h ''home'' [backupHome],
         ConfigurationIssues])"
    by (simp add: statusSchedule_def statusSchedule_body_def Let_def exampleContext_fields
          staleConfig_select staleConfig_resolve sp)
  have d: "statusSchedule refusingEnv ?stale []
     = (Some (Errorf [Lit ''profile '', Lit apos, ArgS ''ghost'', Lit apos, Lit '': '']
                (Some ErrNotFound)),
        [LogWarning legacyFlagWarning,
         DeprecationNotices homeProfile, LogInfo ''Profile'' ''home'',
         CallStatusJobs ?h ''home'' [backupHome],
         ConfigurationIssues])"
    using statusSchedule_current_protocol
            [where ctx = ?stale and env = refusingEnv and t = "[]", THEN conjunct2,
             THEN conjunct2, THEN conjunct2, THEN conjunct1]
          d0
    by (simp add: exampleContext_fields staleConfig_select staleConfig_resolve)
  have e: "statusSchedule refusingEnv ?single []
     = (None,
        [LogWarning legacyFlagWarning, DeprecationNotices homeProfile,
         CallStatusJobs ?h ''home'' [backupHome], ConfigurationIssues])"
    using statusSchedule_current_protocol [where ctx = ?single and env = refusingEnv and t = "[]"]
    by (simp add: fields exampleConfig_resolve sp)
  show ?thesis using a b c d e by simp
qed

text \<open>
  C9: in the legacy status over all names, the first name that does not resolve ends
  the command with its error: nothing is done for the names after it. A report that
  fails, also after the elevation retry, is logged and the loop goes on with the next
  name; so the loop ends without an error exactly when every name resolves.
\<close>

theorem statusSchedule_legacy_all_resolution:
  fixes ctx :: Context
  defines "c \<equiv> ctx_config ctx"
      and "args \<equiv> request_arguments (ctx_request ctx)"
      and "fl \<equiv> ctx_flags ctx"
  shows "(''--legacy'' \<in> set args \<and> ''--all'' \<in> set args
            \<and> selectProfilesAndGroups c (request_profile (ctx_request ctx)) args
                = before @ n # rest
            \<and> (\<forall>m \<in> set before. \<exists>v. fst (getScheduleJobs c m) = Inr v)
            \<and> getScheduleJobs c n = (Inl e, es) \<longrightarrow>
            statusSchedule env ctx t =
              (Some e,
               snd (statusLegacyAll env c fl before (t @ [LogWarning legacyFlagWarning]))
                 @ es @ [ConfigurationIssues]))
       \<and> (getScheduleJobs c n = (Inr (sc, scheds, sch), es) \<and> scheds \<noteq> []
            \<and> statusScheduleProfileOrGroup env sc scheds fl n (t @ es @ [LogInfo (Title (Kind sch)) n])
                = (Some e, t1) \<longrightarrow>
            statusLegacyAll env c fl (n # rest) t
              = statusLegacyAll env c fl rest (t1 @ [LogError e]))
       \<and> (fst (statusLegacyAll env c fl names t) = None
            \<longleftrightarrow> (\<forall>m \<in> set names. \<exists>v. fst (getScheduleJobs c m) = Inr v))"
proof (intro conjI impI)
  assume a: "''--legacy'' \<in> set args \<and> ''--all'' \<in> set args
            \<and> selectProfilesAndGroups c (request_profile (ctx_request ctx)) args
                = before @ n # rest
            \<and> (\<forall>m \<in> set before. \<exists>v. fst (getScheduleJobs c m) = Inr v)
            \<and> getScheduleJobs c n = (Inl e, es)"
  let ?t0 = "t @ [LogWarning legacyFlagWarning]"
  obtain r1 t1 where b: "statusLegacyAll env c fl before ?t0 = (r1, t1)"
    by (cases "statusLegacyAll env c fl before ?t0")
  have "r1 = None"
    using statusLegacyAll_result [of env c fl before ?t0] a b by simp
  then have "statusLegacyAll env c fl (before @ n # rest) ?t0 = (Some e, t1 @ es)"
    using a b by (simp add: statusLegacyAll_append)
  then show "statusSchedule env ctx t =
              (Some e,
               snd (statusLegacyAll env c fl before (t @ [LogWarning legacyFlagWarning]))
                 @ es @ [ConfigurationIssues])"
    using a b
    by (simp add: statusSchedule_def statusSchedule_body_def Let_def c_def [symmetric]
          args_def [symmetric] fl_def [symmetric])
next
  assume "getScheduleJobs c n = (Inr (sc, scheds, sch), es) \<and> scheds \<noteq> []
            \<and> statusScheduleProfileOrGroup env sc scheds fl n (t @ es @ [LogInfo (Title (Kind sch)) n])
                = (Some e, t1)"
  then show "statusLegacyAll env c fl (n # rest) t
              = statusLegacyAll env c fl rest (t1 @ [LogError e])"
    by simp
next
  show "fst (statusLegacyAll env c fl names t) = None
            \<longleftrightarrow> (\<forall>m \<in> set names. \<exists>v. fst (getScheduleJobs c m) = Inr v)"
    by (rule statusLegacyAll_result)
qed

theorem statusSchedule_legacy_all_resolution_witness:
  "statusSchedule failingEnv (exampleContext staleConfig ''home'' [''--legacy'', ''--all'']) []
     = (Some (Errorf [Lit ''profile '', Lit apos, ArgS ''ghost'', Lit apos, Lit '': '']
                (Some ErrNotFound)),
        [LogWarning legacyFlagWarning, DeprecationNotices homeProfile,
         LogInfo ''Profile'' ''home'',
         CallStatusJobs (NewHandler (NewSchedulerConfig (GlobalSection 2))) ''home'' [backupHome],
         CallRetryElevated (ErrorsNew ''access denied'') (CommandLineFlags 0),
         LogError (ErrorsNew ''access denied''),
         ConfigurationIssues])
   \<and> statusLegacyAll failingEnv exampleConfig (CommandLineFlags 0) [''home'', ''mail''] []
     = statusLegacyAll failingEnv exampleConfig (CommandLineFlags 0) [''mail'']
         [DeprecationNotices homeProfile, LogInfo ''Profile'' ''home'',
          CallStatusJobs (NewHandler (NewSchedulerConfig (GlobalSection 2))) ''home'' [backupHome],
          CallRetryElevated (ErrorsNew ''access denied'') (CommandLineFlags 0),
          LogError (ErrorsNew ''access denied'')]
   \<and> fst (statusLegacyAll failingEnv exampleConfig (CommandLineFlags 0)
             [''home'', ''docs'', ''mail'', ''full''] []) = None"
proof -
  let ?stale = "exampleContext staleConfig ''home'' [''--legacy'', ''--all'']"
  let ?ex = "exampleContext exampleConfig ''home'' [''--legacy'', ''--all'']"
  let ?sc = "NewSchedulerConfig (GlobalSection 2)"
  let ?denied = "ErrorsNew ''access denied''"
  let ?t1 = "[DeprecationNotices homeProfile, LogInfo ''Profile'' ''home'',
          CallStatusJobs (NewHandler ?sc) ''home'' [backupHome],
          CallRetryElevated ?denied (CommandLineFlags 0)]"
  have st: "statusScheduleProfileOrGroup failingEnv ?sc [backupHome] (CommandLineFlags 0) ''home''
              (t @ [DeprecationNotices homeProfile, LogInfo ''Profile'' ''home''])
            = (Some ?denied,
               t @ [DeprecationNotices homeProfile, LogInfo ''Profile'' ''home'',
                    CallStatusJobs (NewHandler ?sc) ''home'' [backupHome],
                    CallRetryElevated ?denied (CommandLineFlags 0)])" for t
    by (simp add: statusScheduleProfileOrGroup_def statusJobs_def retryElevated_def
          failingEnv_def)
  have a: "statusSchedule failingEnv ?stale []
     = (Some (Errorf [Lit ''profile '', Lit apos, ArgS ''ghost'', Lit apos, Lit '': '']
                (Some ErrNotFound)),
        [LogWarning legacyFlagWarning, DeprecationNotices homeProfile,
         LogInfo ''Profile'' ''home'',
         CallStatusJobs (NewHandler ?sc) ''home'' [backupHome],
         CallRetryElevated ?denied (CommandLineFlags 0),
         LogError ?denied,
         ConfigurationIssues])"
    using statusSchedule_legacy_all_resolution
            [where ctx = ?stale and before = "[''home'']" and n = "''ghost''"
               and rest = "[''phantom'']" and es = "[]" and env = failingEnv and t = "[]"
               and e = "Errorf [Lit ''profile '', Lit apos, ArgS ''ghost'', Lit apos, Lit '': '']
                          (Some ErrNotFound)"]
          st [of "[LogWarning legacyFlagWarning]"]
    by (simp add: exampleContext_fields staleConfig_select staleConfig_resolve)
  have b: "statusLegacyAll failingEnv exampleConfig (CommandLineFlags 0) [''home'', ''mail''] []
     = statusLegacyAll failingEnv exampleConfig (CommandLineFlags 0) [''mail'']
         (?t1 @ [LogError ?denied])"
    using statusSchedule_legacy_all_resolution
            [where ctx = ?ex and n = "''home''" and sc = ?sc and scheds = "[backupHome]"
               and sch = "IsProfile homeProfile" and es = "[DeprecationNotices homeProfile]"
               and env = failingEnv and t = "[]" and e = ?denied and ?t1.0 = ?t1
               and rest = "[''mail'']"]
          st [of "[]"]
    by (simp add: exampleContext_fields exampleConfig_resolve)
  have c: "fst (statusLegacyAll failingEnv exampleConfig (CommandLineFlags 0)
             [''home'', ''docs'', ''mail'', ''full''] []) = None"
    using statusSchedule_legacy_all_resolution
            [where ctx = ?ex and env = failingEnv and t = "[]"
               and names = "[''home'', ''docs'', ''mail'', ''full'']"]
    by (simp add: exampleContext_fields exampleConfig_resolve)
  show ?thesis using a b c by simp
qed

section \<open>Reconciler: the legacy remove\<close>

lemma getRemovableScheduleJobs_events:
  "getRemovableScheduleJobs c n = (r, es) \<Longrightarrow> filter isRemoveDispatch es = []"
proof -
  assume a: "getRemovableScheduleJobs c n = (r, es)"
  obtain r0 es0 where g: "getScheduleJobs c n = (r0, es0)" by (cases "getScheduleJobs c n")
  have "es = es0"
    using a g by (auto simp: getRemovableScheduleJobs_def split: sum.splits)
  moreover have "es0 = [] \<or> (\<exists>p. es0 = [DeprecationNotices p])"
    by (rule getScheduleJobs_events [OF g])
  ultimately show ?thesis by auto
qed

lemma getRemovableScheduleJobs_resolves:
  "(\<exists>v. fst (getRemovableScheduleJobs c n) = Inr v) \<longleftrightarrow> (\<exists>v. fst (getScheduleJobs c n) = Inr v)"
  by (cases "getScheduleJobs c n")
     (auto simp: getRemovableScheduleJobs_def split: sum.splits)

lemma removeLegacy_step:
  assumes "getRemovableScheduleJobs c n = (Inr (sc, js), es)"
  shows "\<exists>t1. removeLegacy env c fl (n # rest) t = removeLegacy env c fl rest t1
              \<and> filter isRemoveDispatch t1
                  = filter isRemoveDispatch t @ [CallRemoveJobs (NewHandler sc) js]"
  using assms getRemovableScheduleJobs_events [OF assms]
  by (auto simp: removeJobs_def retryElevated_def split: option.splits)

lemma removeLegacy_all_resolve:
  assumes "\<forall>n \<in> set names. \<exists>v. fst (getScheduleJobs c n) = Inr v"
  shows "fst (removeLegacy env c fl names t) = None
       \<and> filter isRemoveDispatch (snd (removeLegacy env c fl names t))
           = filter isRemoveDispatch t @
             concat (map (\<lambda>n. case fst (getRemovableScheduleJobs c n) of
                                 Inr (sc, js) \<Rightarrow> [CallRemoveJobs (NewHandler sc) js]
                               | Inl e \<Rightarrow> []) names)"
  using assms
proof (induction names arbitrary: t)
  case Nil
  show ?case by simp
next
  case (Cons n names)
  from Cons.prems have "\<exists>v. fst (getScheduleJobs c n) = Inr v" by simp
  then have "\<exists>v. fst (getRemovableScheduleJobs c n) = Inr v"
    by (simp only: getRemovableScheduleJobs_resolves)
  then obtain sc js es where g: "getRemovableScheduleJobs c n = (Inr (sc, js), es)"
    by (cases "getRemovableScheduleJobs c n") auto
  from removeLegacy_step [OF g, of env fl names t] obtain t1 where
    s: "removeLegacy env c fl (n # names) t = removeLegacy env c fl names t1"
       "filter isRemoveDispatch t1 = filter isRemoveDispatch t @ [CallRemoveJobs (NewHandler sc) js]"
    by blast
  have rest: "\<forall>n \<in> set names. \<exists>v. fst (getScheduleJobs c n) = Inr v" using Cons.prems by simp
  from Cons.IH [OF rest, of t1] show ?case
    unfolding s(1) using s(2) g by simp
qed

lemma exampleConfig_defaults: "scheduleDefaults exampleConfig = plainSchedule"
  by (simp add: exampleConfig_def)

lemma exampleConfig_removable:
  "getRemovableScheduleJobs exampleConfig ''home''
     = (Inr (NewSchedulerConfig (GlobalSection 2),
             [backupHome,
              plainSchedule\<lparr>origin := \<lparr>Name = ''home'', Command = ''check''\<rparr>\<rparr>,
              plainSchedule\<lparr>origin := \<lparr>Name = ''home'', Command = ''prune''\<rparr>\<rparr>]),
        [DeprecationNotices homeProfile])"
  "getRemovableScheduleJobs exampleConfig ''full''
     = (Inr (NewSchedulerConfig (GlobalSection 2), [backupFull]), [])"
  by (simp_all add: getRemovableScheduleJobs_def exampleConfig_resolve homeProfile_def
        fullGroup_def backupHome_def backupFull_def NewDefaultSchedule_def ScheduleOrigin_def
        exampleConfig_defaults)

text \<open>
  C6: in the legacy remove, when every selected name resolves, the command returns no
  error and dispatches the remove set of every selected name, one after the other,
  whatever the handler answers. A removal that fails, also after the elevation retry,
  is logged and the loop goes on with the next name.
\<close>

theorem removeSchedule_legacy_best_effort:
  fixes ctx :: Context
  defines "c \<equiv> ctx_config ctx"
      and "args \<equiv> request_arguments (ctx_request ctx)"
      and "fl \<equiv> ctx_flags ctx"
  shows "(''--legacy'' \<in> set args
            \<and> (\<forall>n \<in> set (selectProfilesAndGroups c (request_profile (ctx_request ctx)) args).
                  \<exists>v. fst (getScheduleJobs c n) = Inr v) \<longrightarrow>
            fst (removeSchedule env ctx t) = None
            \<and> filter isRemoveDispatch (snd (removeSchedule env ctx t))
                = filter isRemoveDispatch t @
                  concat (map (\<lambda>n. case fst (getRemovableScheduleJobs c n) of
                                      Inr (sc, js) \<Rightarrow> [CallRemoveJobs (NewHandler sc) js]
                                    | Inl e \<Rightarrow> [])
                            (selectProfilesAndGroups c (request_profile (ctx_request ctx)) args)))
       \<and> (getRemovableScheduleJobs c n = (Inr (sc, js), es)
            \<and> removeJobs env (NewHandler sc) js (t @ es) = (Some e, t1)
            \<and> retryElevated env e fl t1 = (Some e2, t2) \<longrightarrow>
            removeLegacy env c fl (n # rest) t = removeLegacy env c fl rest (t2 @ [LogError e2]))"
proof (intro conjI impI)
  assume a: "''--legacy'' \<in> set args
            \<and> (\<forall>n \<in> set (selectProfilesAndGroups c (request_profile (ctx_request ctx)) args).
                  \<exists>v. fst (getScheduleJobs c n) = Inr v)"
  let ?names = "selectProfilesAndGroups c (request_profile (ctx_request ctx)) args"
  have r: "removeSchedule env ctx t
             = removeLegacy env c fl ?names (t @ [LogWarning legacyFlagWarning])"
    using a by (simp add: removeSchedule_def Let_def c_def args_def fl_def)
  from a have all: "\<forall>n \<in> set ?names. \<exists>v. fst (getScheduleJobs c n) = Inr v" by simp
  note L = removeLegacy_all_resolve [OF all, of env fl "t @ [LogWarning legacyFlagWarning]"]
  show "fst (removeSchedule env ctx t) = None" using L unfolding r by simp
  show "filter isRemoveDispatch (snd (removeSchedule env ctx t))
                = filter isRemoveDispatch t @
                  concat (map (\<lambda>n. case fst (getRemovableScheduleJobs c n) of
                                      Inr (sc, js) \<Rightarrow> [CallRemoveJobs (NewHandler sc) js]
                                    | Inl e \<Rightarrow> []) ?names)"
    using L unfolding r by simp
next
  assume "getRemovableScheduleJobs c n = (Inr (sc, js), es)
            \<and> removeJobs env (NewHandler sc) js (t @ es) = (Some e, t1)
            \<and> retryElevated env e fl t1 = (Some e2, t2)"
  then show "removeLegacy env c fl (n # rest) t = removeLegacy env c fl rest (t2 @ [LogError e2])"
    by simp
qed

theorem removeSchedule_legacy_best_effort_witness:
  "removeSchedule failingEnv (exampleContext exampleConfig ''home'' [''--legacy'']) []
     = (None,
        [LogWarning legacyFlagWarning, DeprecationNotices homeProfile,
         CallRemoveJobs (NewHandler (NewSchedulerConfig (GlobalSection 2)))
           [backupHome,
            plainSchedule\<lparr>origin := \<lparr>Name = ''home'', Command = ''check''\<rparr>\<rparr>,
            plainSchedule\<lparr>origin := \<lparr>Name = ''home'', Command = ''prune''\<rparr>\<rparr>],
         CallRetryElevated (ErrorsNew ''access denied'') (CommandLineFlags 0),
         LogError (ErrorsNew ''access denied'')])
   \<and> removeLegacy failingEnv exampleConfig (CommandLineFlags 0) [''home'', ''full''] []
     = (None,
        [DeprecationNotices homeProfile,
         CallRemoveJobs (NewHandler (NewSchedulerConfig (GlobalSection 2)))
           [backupHome,
            plainSchedule\<lparr>origin := \<lparr>Name = ''home'', Command = ''check''\<rparr>\<rparr>,
            plainSchedule\<lparr>origin := \<lparr>Name = ''home'', Command = ''prune''\<rparr>\<rparr>],
         CallRetryElevated (ErrorsNew ''access denied'') (CommandLineFlags 0),
         LogError (ErrorsNew ''access denied''),
         CallRemoveJobs (NewHandler (NewSchedulerConfig (GlobalSection 2))) [backupFull]])"
proof -
  let ?ctx = "exampleContext exampleConfig ''home'' [''--legacy'']"
  let ?sc = "NewSchedulerConfig (GlobalSection 2)"
  let ?denied = "ErrorsNew ''access denied''"
  let ?js = "[backupHome,
            plainSchedule\<lparr>origin := \<lparr>Name = ''home'', Command = ''check''\<rparr>\<rparr>,
            plainSchedule\<lparr>origin := \<lparr>Name = ''home'', Command = ''prune''\<rparr>\<rparr>]"
  have sel: "selectProfilesAndGroups exampleConfig ''home'' [''--legacy''] = [''home'']"
    by (simp add: selectProfilesAndGroups_def)
  have rm: "removeJobs failingEnv (NewHandler ?sc) ?js t
              = (Some ?denied, t @ [CallRemoveJobs (NewHandler ?sc) ?js])" for t
    by (simp add: removeJobs_def failingEnv_def backupHome_def ScheduleOrigin_def)
  have rm2: "removeJobs failingEnv (NewHandler ?sc) [backupFull] t
              = (None, t @ [CallRemoveJobs (NewHandler ?sc) [backupFull]])" for t
    by (simp add: removeJobs_def failingEnv_def backupFull_def ScheduleOrigin_def)
  have re: "retryElevated failingEnv ?denied (CommandLineFlags 0) t
              = (Some ?denied, t @ [CallRetryElevated ?denied (CommandLineFlags 0)])" for t
    by (simp add: retryElevated_def failingEnv_def)
  note T = removeSchedule_legacy_best_effort
             [where ctx = ?ctx and env = failingEnv and t = "[]" and n = "''home''"
                and sc = ?sc and js = ?js and es = "[DeprecationNotices homeProfile]"
                and e = ?denied and ?e2.0 = ?denied and rest = "[''full'']"
                and ?t1.0 = "[DeprecationNotices homeProfile, CallRemoveJobs (NewHandler ?sc) ?js]"
                and ?t2.0 = "[DeprecationNotices homeProfile, CallRemoveJobs (NewHandler ?sc) ?js,
                              CallRetryElevated ?denied (CommandLineFlags 0)]"]
  have ok: "fst (removeSchedule failingEnv ?ctx []) = None"
    using T by (simp add: exampleContext_fields sel exampleConfig_resolve)
  have tr: "snd (removeSchedule failingEnv ?ctx [])
     = [LogWarning legacyFlagWarning, DeprecationNotices homeProfile,
         CallRemoveJobs (NewHandler ?sc) ?js,
         CallRetryElevated ?denied (CommandLineFlags 0), LogError ?denied]"
    by (simp add: removeSchedule_def Let_def exampleContext_fields sel exampleConfig_removable
          rm re del: removeJobs_def)
  have step: "removeLegacy failingEnv exampleConfig (CommandLineFlags 0) [''home'', ''full''] []
     = removeLegacy failingEnv exampleConfig (CommandLineFlags 0) [''full'']
         [DeprecationNotices homeProfile, CallRemoveJobs (NewHandler ?sc) ?js,
          CallRetryElevated ?denied (CommandLineFlags 0), LogError ?denied]"
    using T rm [of "[DeprecationNotices homeProfile]"]
          re [of "[DeprecationNotices homeProfile, CallRemoveJobs (NewHandler ?sc) ?js]"]
    by (simp add: exampleContext_fields exampleConfig_removable)
  have fin: "removeLegacy failingEnv exampleConfig (CommandLineFlags 0) [''full'']
         [DeprecationNotices homeProfile, CallRemoveJobs (NewHandler ?sc) ?js,
          CallRetryElevated ?denied (CommandLineFlags 0), LogError ?denied]
       = (None, [DeprecationNotices homeProfile, CallRemoveJobs (NewHandler ?sc) ?js,
          CallRetryElevated ?denied (CommandLineFlags 0), LogError ?denied,
          CallRemoveJobs (NewHandler ?sc) [backupFull]])"
    by (simp add: exampleConfig_removable rm2)
  show ?thesis
    using ok tr step fin by (simp add: prod_eq_iff)
qed

section \<open>Context rehydrator: properties\<close>

lemma Cut_None: "Cut s sep = None \<longleftrightarrow> sep \<notin> set s"
  by (induction s) (auto split: option.splits)

lemma Cut_first: "sep \<notin> set cmd \<Longrightarrow> Cut (cmd @ sep # owner) sep = Some (cmd, owner)"
  by (induction cmd) auto

lemma loadOwner_not_ErrorsNew: "loadOwner c n \<noteq> Inl (ErrorsNew m)"
  by (simp add: loadOwner_def split: loaded.splits)

lemma preRunSchedule_found:
  assumes "request_arguments (ctx_request ctx) = scheduleName # arguments"
      and "Cut scheduleName (CHR ''@'') = Some (commandName, profileName)"
      and "loadOwner (ctx_config ctx) profileName = Inr schedulable"
      and "map_of (Schedules schedulable) commandName = Some s"
  shows "preRunSchedule ctx =
           (None,
            prepareScheduledProfile s
              (ctx\<lparr>ctx_request := (ctx_request ctx)
                       \<lparr>request_profile := profileName, request_schedule := scheduleName,
                        request_arguments := arguments\<rparr>,
                    ctx_command := commandName, ctx_schedule := Some s\<rparr>),
            [LogDebug (Kind schedulable) scheduleName])"
  using assms by (simp add: preRunSchedule_def Let_def)

lemma prepareScheduledProfile_stopOnBattery:
  "ctx_stopOnBattery (prepareScheduledProfile s ctx) =
     (if 0 < IgnoreOnBatteryLessThan s \<and> \<not> IsStrictlyFalse (IgnoreOnBattery s)
      then IgnoreOnBatteryLessThan s
      else if IsTrue (IgnoreOnBattery s) then 100 else ctx_stopOnBattery ctx)"
  by (auto simp: prepareScheduledProfile_def Let_def)

lemma exampleConfig_owner:
  "loadOwner exampleConfig ''home'' = Inr (IsProfile homeProfile)"
  "loadOwner exampleConfig ''mail'' = Inr (IsProfile mailProfile)"
  "loadOwner exampleConfig [] =
     Inl (Errorf [Lit ''profile or group '', ArgQ [], Lit '': ''] (Some ErrNotFound))"
  "HasProfile exampleConfig [] = False"
  "HasProfileGroup exampleConfig [] = False"
  by (simp_all add: loadOwner_def exampleConfig_def)

lemma example_schedules:
  "map_of (Schedules (IsProfile homeProfile)) ''backup'' = Some backupHome"
  "map_of (Schedules (IsProfile mailProfile)) ''check'' = Some checkMail"
  "map_of (Schedules (IsProfile homeProfile)) [] = None"
  by (simp_all add: homeProfile_def mailProfile_def)

lemma example_cut:
  "Cut ''backup@home'' (CHR ''@'') = Some (''backup'', ''home'')"
  "Cut ''check@mail'' (CHR ''@'') = Some (''check'', ''mail'')"
  by simp_all

lemma exampleContext_stop:
  "(exampleContext c p a)\<lparr>ctx_stopOnBattery := 0\<rparr> = exampleContext c p a"
  by (simp add: exampleContext_def)

lemma example_battery:
  "IgnoreOnBatteryLessThan backupHome = 0" "IgnoreOnBattery backupHome = MaybeTrue"
  "IgnoreOnBatteryLessThan checkMail = 40" "IgnoreOnBattery checkMail = Unset"
  by (simp_all add: backupHome_def checkMail_def plainSchedule_def)

text \<open>
  C10: preRunSchedule returns an error made by \<open>errors.New\<close> (the two errors of a
  malformed identity) exactly when there is no argument or the first argument has no
  \<open>@\<close>. A token is cut at its first \<open>@\<close>, also when the text before or after it is
  empty. So a token \<open>cmd@\<close> goes on to the owner lookup with the empty name and, when
  no profile and no group has the empty name, fails with an error that wraps
  \<open>ErrNotFound\<close>; a token \<open>@owner\<close> whose owner loads, and which declares no schedule
  under the empty command, returns no error and leaves the context as it is but for
  the request, the command and the schedule pointer.
\<close>

theorem preRunSchedule_malformed_identity:
  fixes ctx :: Context
  defines "args \<equiv> request_arguments (ctx_request ctx)"
      and "c \<equiv> ctx_config ctx"
  shows "(args = [] \<longrightarrow>
            fst (preRunSchedule ctx)
              = Some (ErrorsNew ''run-schedule command expects one argument: schedule name''))
       \<and> (args = tok # rest \<and> CHR ''@'' \<notin> set tok \<longrightarrow>
            fst (preRunSchedule ctx)
              = Some (ErrorsNew
                  ''the expected format of the schedule name is <command>@<profile-or-group-name>''))
       \<and> (args = tok # rest \<and> CHR ''@'' \<in> set tok \<longrightarrow>
            fst (preRunSchedule ctx) \<noteq> Some (ErrorsNew m))
       \<and> (CHR ''@'' \<notin> set cmd \<longrightarrow>
            Cut (cmd @ CHR ''@'' # owner) (CHR ''@'') = Some (cmd, owner))
       \<and> (args = (cmd @ ''@'') # rest \<and> CHR ''@'' \<notin> set cmd
            \<and> \<not> HasProfile c [] \<and> \<not> HasProfileGroup c [] \<longrightarrow>
            fst (preRunSchedule ctx)
              = Some (Errorf [Lit ''profile or group '', ArgQ [], Lit '': ''] (Some ErrNotFound))
            \<and> errors_Is (Errorf [Lit ''profile or group '', ArgQ [], Lit '': '']
                           (Some ErrNotFound)) ErrNotFound)
       \<and> (args = (CHR ''@'' # owner) # rest \<and> loadOwner c owner = Inr schedulable
            \<and> map_of (Schedules schedulable) [] = None \<longrightarrow>
            preRunSchedule ctx
              = (None,
                 ctx\<lparr>ctx_request := (ctx_request ctx)
                        \<lparr>request_profile := owner, request_schedule := CHR ''@'' # owner,
                         request_arguments := rest\<rparr>,
                     ctx_command := [], ctx_schedule := None\<rparr>,
                 []))"
proof (intro conjI impI)
  assume "args = []"
  then show "fst (preRunSchedule ctx)
              = Some (ErrorsNew ''run-schedule command expects one argument: schedule name'')"
    by (simp add: preRunSchedule_def args_def)
next
  assume "args = tok # rest \<and> CHR ''@'' \<notin> set tok"
  then have "request_arguments (ctx_request ctx) = tok # rest" "Cut tok (CHR ''@'') = None"
    by (simp_all add: args_def Cut_None)
  then show "fst (preRunSchedule ctx)
              = Some (ErrorsNew
                  ''the expected format of the schedule name is <command>@<profile-or-group-name>'')"
    by (simp add: preRunSchedule_def)
next
  assume a: "args = tok # rest \<and> CHR ''@'' \<in> set tok"
  then obtain commandName profileName where
    cut: "Cut tok (CHR ''@'') = Some (commandName, profileName)"
    using Cut_None [of tok "CHR ''@''"] by (cases "Cut tok (CHR ''@'')") auto
  have args: "request_arguments (ctx_request ctx) = tok # rest" using a by (simp add: args_def)
  show "fst (preRunSchedule ctx) \<noteq> Some (ErrorsNew m)"
    using args cut loadOwner_not_ErrorsNew [of c profileName m]
    by (auto simp: preRunSchedule_def Let_def c_def split: sum.splits option.splits)
next
  assume "CHR ''@'' \<notin> set cmd"
  then show "Cut (cmd @ CHR ''@'' # owner) (CHR ''@'') = Some (cmd, owner)"
    by (rule Cut_first)
next
  assume a: "args = (cmd @ ''@'') # rest \<and> CHR ''@'' \<notin> set cmd
            \<and> \<not> HasProfile c [] \<and> \<not> HasProfileGroup c []"
  then have cut: "Cut (cmd @ ''@'') (CHR ''@'') = Some (cmd, [])"
    using Cut_first [of "CHR ''@''" cmd "[]"] by simp
  have args: "request_arguments (ctx_request ctx) = (cmd @ ''@'') # rest"
    using a by (simp add: args_def)
  have lo: "loadOwner c [] = Inl (Errorf [Lit ''profile or group '', ArgQ [], Lit '': '']
                                    (Some ErrNotFound))"
    using a by (simp add: loadOwner_def)
  show "fst (preRunSchedule ctx)
              = Some (Errorf [Lit ''profile or group '', ArgQ [], Lit '': ''] (Some ErrNotFound))"
    using args cut lo by (simp add: preRunSchedule_def Let_def c_def)
next
  show "errors_Is (Errorf [Lit ''profile or group '', ArgQ [], Lit '': '']
                           (Some ErrNotFound)) ErrNotFound"
    by simp
next
  assume a: "args = (CHR ''@'' # owner) # rest \<and> loadOwner c owner = Inr schedulable
            \<and> map_of (Schedules schedulable) [] = None"
  have args: "request_arguments (ctx_request ctx) = (CHR ''@'' # owner) # rest"
    using a by (simp add: args_def)
  show "preRunSchedule ctx
              = (None,
                 ctx\<lparr>ctx_request := (ctx_request ctx)
                        \<lparr>request_profile := owner, request_schedule := CHR ''@'' # owner,
                         request_arguments := rest\<rparr>,
                     ctx_command := [], ctx_schedule := None\<rparr>,
                 [])"
    using a args by (simp add: preRunSchedule_def Let_def c_def)
qed

theorem preRunSchedule_malformed_identity_witness:
  "fst (preRunSchedule (exampleContext exampleConfig [] []))
     = Some (ErrorsNew ''run-schedule command expects one argument: schedule name'')
   \<and> fst (preRunSchedule (exampleContext exampleConfig [] [''backuponly-no-at'']))
     = Some (ErrorsNew
         ''the expected format of the schedule name is <command>@<profile-or-group-name>'')
   \<and> Cut ''backup@'' (CHR ''@'') = Some (''backup'', [])
   \<and> Cut ''@home'' (CHR ''@'') = Some ([], ''home'')
   \<and> fst (preRunSchedule (exampleContext exampleConfig [] [''backup@'']))
     = Some (Errorf [Lit ''profile or group '', ArgQ [], Lit '': ''] (Some ErrNotFound))
   \<and> fst (preRunSchedule (exampleContext exampleConfig [] [''backup@'']))
     \<noteq> Some (ErrorsNew
         ''the expected format of the schedule name is <command>@<profile-or-group-name>'')
   \<and> preRunSchedule (exampleContext exampleConfig [] [''@home'', ''--quiet''])
     = (None,
        (exampleContext exampleConfig [] [''@home'', ''--quiet''])
          \<lparr>ctx_request := \<lparr>request_profile = ''home'', request_schedule = ''@home'',
                            request_arguments = [''--quiet'']\<rparr>\<rparr>,
        [])"
proof -
  let ?c0 = "exampleContext exampleConfig [] []"
  let ?c1 = "exampleContext exampleConfig [] [''backuponly-no-at'']"
  let ?c2 = "exampleContext exampleConfig [] [''backup@'']"
  let ?c3 = "exampleContext exampleConfig [] [''@home'', ''--quiet'']"
  have a: "fst (preRunSchedule ?c0)
     = Some (ErrorsNew ''run-schedule command expects one argument: schedule name'')"
    using preRunSchedule_malformed_identity [where ctx = ?c0]
    by (simp add: exampleContext_fields)
  have b: "fst (preRunSchedule ?c1)
     = Some (ErrorsNew
         ''the expected format of the schedule name is <command>@<profile-or-group-name>'')"
    using preRunSchedule_malformed_identity
            [where ctx = ?c1 and tok = "''backuponly-no-at''" and rest = "[]"]
    by (simp add: exampleContext_fields)
  have c: "Cut ''backup@'' (CHR ''@'') = Some (''backup'', [])"
    using preRunSchedule_malformed_identity [where cmd = "''backup''" and owner = "[]"]
    by simp
  have d: "Cut ''@home'' (CHR ''@'') = Some ([], ''home'')"
    using preRunSchedule_malformed_identity [where cmd = "[]" and owner = "''home''"]
    by simp
  have e: "fst (preRunSchedule ?c2)
     = Some (Errorf [Lit ''profile or group '', ArgQ [], Lit '': ''] (Some ErrNotFound))"
    using preRunSchedule_malformed_identity
            [where ctx = ?c2 and cmd = "''backup''" and rest = "[]"]
    by (simp add: exampleContext_fields exampleConfig_owner)
  have g: "fst (preRunSchedule ?c2)
     \<noteq> Some (ErrorsNew
         ''the expected format of the schedule name is <command>@<profile-or-group-name>'')"
    using preRunSchedule_malformed_identity
            [where ctx = ?c2 and tok = "''backup@''" and rest = "[]"
               and m = "''the expected format of the schedule name is <command>@<profile-or-group-name>''"]
    by (simp add: exampleContext_fields)
  have f: "preRunSchedule ?c3
     = (None,
        ?c3\<lparr>ctx_request := (ctx_request ?c3)
                 \<lparr>request_profile := ''home'', request_schedule := ''@home'',
                  request_arguments := [''--quiet'']\<rparr>,
             ctx_command := [], ctx_schedule := None\<rparr>,
        [])"
    using preRunSchedule_malformed_identity
            [where ctx = ?c3 and owner = "''home''" and rest = "[''--quiet'']"
               and schedulable = "IsProfile homeProfile"]
    by (simp add: exampleContext_fields exampleConfig_owner homeProfile_def)
  show ?thesis
    using a b c d e f g by (simp add: exampleContext_def)
qed

text \<open>
  C7: when the command of the token is a declared schedule \<open>s\<close> of its owner,
  preRunSchedule sets \<open>stopOnBattery\<close> to the threshold \<open>IgnoreOnBatteryLessThan s\<close>,
  whatever its value was, if and only if the threshold is greater than 0 and
  \<open>IgnoreOnBattery s\<close> is not strictly false; otherwise it sets it to 100 if and only if
  \<open>IgnoreOnBattery s\<close> is true; otherwise it leaves the value as it was.
\<close>

theorem prepareScheduledProfile_battery:
  fixes ctx :: Context
  assumes "request_arguments (ctx_request ctx) = scheduleName # arguments"
      and "Cut scheduleName (CHR ''@'') = Some (commandName, profileName)"
      and "loadOwner (ctx_config ctx) profileName = Inr schedulable"
      and "map_of (Schedules schedulable) commandName = Some s"
  defines "threshold \<equiv> IgnoreOnBatteryLessThan s"
      and "stop \<equiv> (\<lambda>v. ctx_stopOnBattery (fst (snd (preRunSchedule (ctx\<lparr>ctx_stopOnBattery := v\<rparr>)))))"
  shows "((\<forall>v. stop v = threshold) \<longleftrightarrow> 0 < threshold \<and> \<not> IsStrictlyFalse (IgnoreOnBattery s))
       \<and> (\<not> (0 < threshold \<and> \<not> IsStrictlyFalse (IgnoreOnBattery s)) \<longrightarrow>
            ((\<forall>v. stop v = 100) \<longleftrightarrow> IsTrue (IgnoreOnBattery s)))
       \<and> (\<not> (0 < threshold \<and> \<not> IsStrictlyFalse (IgnoreOnBattery s))
            \<and> \<not> IsTrue (IgnoreOnBattery s) \<longrightarrow> (\<forall>v. stop v = v))"
proof -
  have stop: "stop v =
                (if 0 < threshold \<and> \<not> IsStrictlyFalse (IgnoreOnBattery s) then threshold
                 else if IsTrue (IgnoreOnBattery s) then 100 else v)" for v
    using preRunSchedule_found [of "ctx\<lparr>ctx_stopOnBattery := v\<rparr>" scheduleName arguments
            commandName profileName schedulable s] assms(1-4)
    by (simp add: stop_def threshold_def prepareScheduledProfile_stopOnBattery)
  show ?thesis
  proof (intro conjI impI)
    show "(\<forall>v. stop v = threshold) \<longleftrightarrow> 0 < threshold \<and> \<not> IsStrictlyFalse (IgnoreOnBattery s)"
    proof
      assume all: "\<forall>v. stop v = threshold"
      show "0 < threshold \<and> \<not> IsStrictlyFalse (IgnoreOnBattery s)"
      proof (rule ccontr)
        assume n: "\<not> (0 < threshold \<and> \<not> IsStrictlyFalse (IgnoreOnBattery s))"
        show False
        proof (cases "IsTrue (IgnoreOnBattery s)")
          case True
          then have "\<not> IsStrictlyFalse (IgnoreOnBattery s)"
            by (simp add: IsTrue_def IsStrictlyFalse_def)
          with n have "threshold \<le> 0" by simp
          moreover have "stop 0 = 100" using n True by (auto simp: stop)
          ultimately show False using all by simp
        next
          case False
          then have "stop (threshold + 1) = threshold + 1" using n by (auto simp: stop)
          with all show False by simp
        qed
      qed
    next
      assume "0 < threshold \<and> \<not> IsStrictlyFalse (IgnoreOnBattery s)"
      then show "\<forall>v. stop v = threshold" by (auto simp: stop)
    qed
  next
    assume n: "\<not> (0 < threshold \<and> \<not> IsStrictlyFalse (IgnoreOnBattery s))"
    show "(\<forall>v. stop v = 100) \<longleftrightarrow> IsTrue (IgnoreOnBattery s)"
    proof
      assume all: "\<forall>v. stop v = 100"
      show "IsTrue (IgnoreOnBattery s)"
      proof (rule ccontr)
        assume "\<not> IsTrue (IgnoreOnBattery s)"
        then have "stop 0 = 0" using n by (auto simp: stop)
        with all show False by simp
      qed
    next
      assume "IsTrue (IgnoreOnBattery s)"
      then show "\<forall>v. stop v = 100" using n by (auto simp: stop)
    qed
  next
    assume "\<not> (0 < threshold \<and> \<not> IsStrictlyFalse (IgnoreOnBattery s))
            \<and> \<not> IsTrue (IgnoreOnBattery s)"
    then show "\<forall>v. stop v = v" by (auto simp: stop)
  qed
qed

theorem prepareScheduledProfile_battery_witness:
  "Cut ''backup@home'' (CHR ''@'') = Some (''backup'', ''home'')
   \<and> loadOwner exampleConfig ''home'' = Inr (IsProfile homeProfile)
   \<and> map_of (Schedules (IsProfile homeProfile)) ''backup'' = Some backupHome
   \<and> ctx_stopOnBattery
        (fst (snd (preRunSchedule (exampleContext exampleConfig [] [''backup@home''])))) = 100
   \<and> ctx_stopOnBattery
        (fst (snd (preRunSchedule (exampleContext exampleConfig [] [''check@mail''])))) = 40
   \<and> ctx_stopOnBattery
        (fst (snd (preRunSchedule (exampleContext exampleConfig [] [''backup@full''])))) = 0"
proof -
  let ?home = "exampleContext exampleConfig [] [''backup@home'']"
  let ?mail = "exampleContext exampleConfig [] [''check@mail'']"
  have h1: "request_arguments (ctx_request ?home) = [''backup@home'']"
   and m1: "request_arguments (ctx_request ?mail) = [''check@mail'']"
    by (simp_all add: exampleContext_fields)
  have h3: "loadOwner (ctx_config ?home) ''home'' = Inr (IsProfile homeProfile)"
   and m3: "loadOwner (ctx_config ?mail) ''mail'' = Inr (IsProfile mailProfile)"
    by (simp_all add: exampleContext_fields exampleConfig_owner)
  note H = prepareScheduledProfile_battery [OF h1 example_cut(1) h3 example_schedules(1)]
  note M = prepareScheduledProfile_battery [OF m1 example_cut(2) m3 example_schedules(2)]
  from H have "\<forall>v. ctx_stopOnBattery (fst (snd (preRunSchedule (?home\<lparr>ctx_stopOnBattery := v\<rparr>)))) = 100"
    by (simp add: example_battery IsTrue_def IsStrictlyFalse_def)
  then have "ctx_stopOnBattery (fst (snd (preRunSchedule (?home\<lparr>ctx_stopOnBattery := 0\<rparr>)))) = 100"
    by (rule spec)
  then have a: "ctx_stopOnBattery (fst (snd (preRunSchedule ?home))) = 100"
    by (simp only: exampleContext_stop)
  from M have "\<forall>v. ctx_stopOnBattery (fst (snd (preRunSchedule (?mail\<lparr>ctx_stopOnBattery := v\<rparr>)))) = 40"
    by (simp add: example_battery IsTrue_def IsStrictlyFalse_def)
  then have "ctx_stopOnBattery (fst (snd (preRunSchedule (?mail\<lparr>ctx_stopOnBattery := 0\<rparr>)))) = 40"
    by (rule spec)
  then have b: "ctx_stopOnBattery (fst (snd (preRunSchedule ?mail))) = 40"
    by (simp only: exampleContext_stop)
  let ?full = "exampleContext exampleConfig [] [''backup@full'']"
  have f1: "request_arguments (ctx_request ?full) = [''backup@full'']"
    by (simp add: exampleContext_fields)
  have f2: "Cut ''backup@full'' (CHR ''@'') = Some (''backup'', ''full'')" by simp
  have f3: "loadOwner (ctx_config ?full) ''full'' = Inr (IsGroup fullGroup)"
    by (simp add: exampleContext_fields loadOwner_def exampleConfig_def)
  have f4: "map_of (Schedules (IsGroup fullGroup)) ''backup'' = Some backupFull"
    by (simp add: fullGroup_def)
  note F = prepareScheduledProfile_battery [OF f1 f2 f3 f4]
  from F have "\<forall>v. ctx_stopOnBattery (fst (snd (preRunSchedule (?full\<lparr>ctx_stopOnBattery := v\<rparr>)))) = v"
    by (simp add: backupFull_def plainSchedule_def IsTrue_def IsStrictlyFalse_def)
  then have "ctx_stopOnBattery (fst (snd (preRunSchedule (?full\<lparr>ctx_stopOnBattery := 0\<rparr>)))) = 0"
    by (rule spec)
  then have c: "ctx_stopOnBattery (fst (snd (preRunSchedule ?full))) = 0"
    by (simp only: exampleContext_stop)
  show ?thesis
    using a b c example_cut(1) exampleConfig_owner(1) example_schedules(1) by simp
qed

end
